theory Spec2Isabelle
  imports Complex_Main
begin

section \<open>JavaScript numbers\<close>

text \<open>
  The engine computes with JavaScript numbers. A number is modelled as a real, or one of
  the three special values that a division by zero brings in: \<open>Infinity\<close>,
  \<open>-Infinity\<close> and \<open>NaN\<close>. Arithmetic on finite values is exact: rounding to
  binary64, overflow and the sign of zero are outside the model (\<open>x / 0\<close> is taken
  with a positive zero). Every operation below follows IEEE 754 on the special values.
\<close>

datatype jsnum = Fin real | PInf | NInf | NaN

instantiation jsnum :: "{plus, uminus, minus, times, inverse}"
begin

fun plus_jsnum :: "jsnum \<Rightarrow> jsnum \<Rightarrow> jsnum" where
  "plus_jsnum NaN b = NaN"
| "plus_jsnum a NaN = NaN"
| "plus_jsnum (Fin a) (Fin b) = Fin (a + b)"
| "plus_jsnum PInf NInf = NaN"
| "plus_jsnum NInf PInf = NaN"
| "plus_jsnum PInf b = PInf"
| "plus_jsnum a PInf = PInf"
| "plus_jsnum NInf b = NInf"
| "plus_jsnum a NInf = NInf"

fun uminus_jsnum :: "jsnum \<Rightarrow> jsnum" where
  "uminus_jsnum (Fin a) = Fin (- a)"
| "uminus_jsnum PInf = NInf"
| "uminus_jsnum NInf = PInf"
| "uminus_jsnum NaN = NaN"

definition minus_jsnum :: "jsnum \<Rightarrow> jsnum \<Rightarrow> jsnum" where
  "minus_jsnum a b = a + (- b)"

fun times_jsnum :: "jsnum \<Rightarrow> jsnum \<Rightarrow> jsnum" where
  "times_jsnum NaN b = NaN"
| "times_jsnum a NaN = NaN"
| "times_jsnum (Fin a) (Fin b) = Fin (a * b)"
| "times_jsnum (Fin a) PInf = (if a = 0 then NaN else if 0 < a then PInf else NInf)"
| "times_jsnum (Fin a) NInf = (if a = 0 then NaN else if 0 < a then NInf else PInf)"
| "times_jsnum PInf (Fin b) = (if b = 0 then NaN else if 0 < b then PInf else NInf)"
| "times_jsnum NInf (Fin b) = (if b = 0 then NaN else if 0 < b then NInf else PInf)"
| "times_jsnum PInf PInf = PInf"
| "times_jsnum PInf NInf = NInf"
| "times_jsnum NInf PInf = NInf"
| "times_jsnum NInf NInf = PInf"

fun divide_jsnum :: "jsnum \<Rightarrow> jsnum \<Rightarrow> jsnum" where
  "divide_jsnum NaN b = NaN"
| "divide_jsnum a NaN = NaN"
| "divide_jsnum (Fin a) (Fin b) =
     (if b = 0 then (if a = 0 then NaN else if 0 < a then PInf else NInf)
      else Fin (a / b))"
| "divide_jsnum (Fin a) PInf = Fin 0"
| "divide_jsnum (Fin a) NInf = Fin 0"
| "divide_jsnum PInf (Fin b) = (if 0 \<le> b then PInf else NInf)"
| "divide_jsnum NInf (Fin b) = (if 0 \<le> b then NInf else PInf)"
| "divide_jsnum PInf b = NaN"
| "divide_jsnum NInf b = NaN"

definition inverse_jsnum :: "jsnum \<Rightarrow> jsnum" where
  "inverse_jsnum a = divide (Fin 1) a"

instance ..

end

text \<open>Comparisons: every comparison with \<open>NaN\<close> is false.\<close>

fun jlt :: "jsnum \<Rightarrow> jsnum \<Rightarrow> bool" where
  "jlt (Fin a) (Fin b) = (a < b)"
| "jlt (Fin a) PInf = True"
| "jlt NInf (Fin b) = True"
| "jlt NInf PInf = True"
| "jlt a b = False"

fun jle :: "jsnum \<Rightarrow> jsnum \<Rightarrow> bool" where
  "jle (Fin a) (Fin b) = (a \<le> b)"
| "jle NaN b = False"
| "jle a NaN = False"
| "jle NInf b = True"
| "jle a PInf = True"
| "jle a b = False"

definition jgt :: "jsnum \<Rightarrow> jsnum \<Rightarrow> bool" where
  "jgt a b = jlt b a"

text \<open>The \<open>%\<close> operator: the remainder has the sign of the dividend.\<close>

definition trunc :: "real \<Rightarrow> real" where
  "trunc a = (if 0 \<le> a then of_int \<lfloor>a\<rfloor> else of_int \<lceil>a\<rceil>)"

fun jmod :: "jsnum \<Rightarrow> jsnum \<Rightarrow> jsnum" where
  "jmod (Fin a) (Fin b) = (if b = 0 then NaN else Fin (a - b * trunc (a / b)))"
| "jmod (Fin a) PInf = Fin a"
| "jmod (Fin a) NInf = Fin a"
| "jmod a b = NaN"

text \<open>The functions of \<open>Math\<close> that the engine calls.\<close>

fun Math_floor :: "jsnum \<Rightarrow> jsnum" where
  "Math_floor (Fin a) = Fin (of_int \<lfloor>a\<rfloor>)"
| "Math_floor a = a"

fun Math_ceil :: "jsnum \<Rightarrow> jsnum" where
  "Math_ceil (Fin a) = Fin (of_int \<lceil>a\<rceil>)"
| "Math_ceil a = a"

fun Math_round :: "jsnum \<Rightarrow> jsnum" where
  "Math_round (Fin a) = Fin (of_int \<lfloor>a + 1 / 2\<rfloor>)"
| "Math_round a = a"

fun Math_min :: "jsnum \<Rightarrow> jsnum \<Rightarrow> jsnum" where
  "Math_min NaN b = NaN"
| "Math_min a NaN = NaN"
| "Math_min a b = (if jlt b a then b else a)"

fun Math_max :: "jsnum \<Rightarrow> jsnum \<Rightarrow> jsnum" where
  "Math_max NaN b = NaN"
| "Math_max a NaN = NaN"
| "Math_max a b = (if jlt a b then b else a)"

fun Math_abs :: "jsnum \<Rightarrow> jsnum" where
  "Math_abs (Fin a) = Fin \<bar>a\<bar>"
| "Math_abs NInf = PInf"
| "Math_abs a = a"

fun Math_sin :: "jsnum \<Rightarrow> jsnum" where
  "Math_sin (Fin a) = Fin (sin a)"
| "Math_sin a = NaN"

fun Math_asin :: "jsnum \<Rightarrow> jsnum" where
  "Math_asin (Fin a) = (if - 1 \<le> a \<and> a \<le> 1 then Fin (arcsin a) else NaN)"
| "Math_asin a = NaN"

definition Math_PI :: jsnum where
  "Math_PI = Fin pi"

text \<open>
  \<open>Number.prototype.toFixed\<close> with \<open>f\<close> fraction digits: the nearest multiple of
  \<open>10\<^sup>-\<^sup>f\<close> (the larger one on a tie), printed in decimal. Beyond
  \<open>10\<^sup>2\<^sup>1\<close> JavaScript prints exponent notation, which is not modelled (no
  length of the engine comes near it).
\<close>

fun digits :: "nat \<Rightarrow> string" where
  "digits n =
     (if n < 10 then [''0123456789'' ! n]
      else digits (n div 10) @ [''0123456789'' ! (n mod 10)])"

declare digits.simps [simp del]

fun toFixed :: "nat \<Rightarrow> jsnum \<Rightarrow> string" where
  "toFixed f NaN = ''NaN''"
| "toFixed f PInf = ''Infinity''"
| "toFixed f NInf = ''-Infinity''"
| "toFixed f (Fin a) =
     (let n = nat \<lfloor>\<bar>a\<bar> * 10 ^ f + 1 / 2\<rfloor>;
          ds = digits n;
          padded = replicate (Suc f - length ds) (CHR ''0'') @ ds;
          k = length padded - f;
          m = (if f = 0 then padded else take k padded @ ''.'' @ drop k padded)
      in (if a < 0 then ''-'' else []) @ m)"

section \<open>Data model\<close>

record RibParams =
  height :: jsnum
  minDepth :: jsnum
  maxDepth :: jsnum
  thickness :: jsnum
  count :: jsnum
  spacing :: jsnum
  frequency :: jsnum
  phase :: jsnum
  waveType :: jsnum
  controlPoints :: jsnum
  displayResolution :: jsnum
  color :: string
  ceilingRun :: jsnum

datatype InstallationMode = Wall | Ceiling | Both

definition PRICE_PER_SF :: jsnum where "PRICE_PER_SF = Fin 45"
definition PRICE_LED_PER_LF :: jsnum where "PRICE_LED_PER_LF = Fin 30"
definition SHEET_WIDTH :: jsnum where "SHEET_WIDTH = Fin 48"
definition SHEET_HEIGHT :: jsnum where "SHEET_HEIGHT = Fin 144"
definition SHEET_PRICE :: jsnum where "SHEET_PRICE = Fin 1800"

section \<open>Pricing\<close>

record PricingResult =
  totalWidth :: jsnum
  ribLength :: jsnum
  totalSurfaceAreaSqFt :: jsnum
  ribPrice :: jsnum
  ledLinearFeet :: jsnum
  ledPrice :: jsnum
  totalPrice :: jsnum
  ribsPerSheet :: jsnum
  sectionsPerRib :: jsnum
  sheetsNeeded :: jsnum
  sheetTotalCost :: jsnum
  wallCoverage :: string

definition calculatePricing :: "RibParams \<Rightarrow> InstallationMode \<Rightarrow> bool \<Rightarrow> PricingResult" where
  "calculatePricing params installationMode ledEnabled =
    (let totalWidth' = (count params - Fin 1) * spacing params;
         ribLength' = (if installationMode = Both then height params + ceilingRun params
                       else height params);
         surfaceAreaPerRibSqIn = ribLength' * maxDepth params;
         surfaceAreaPerRibSqFt = surfaceAreaPerRibSqIn / Fin 144;
         totalSurfaceAreaSqFt' = surfaceAreaPerRibSqFt * count params;
         ribPrice' = totalSurfaceAreaSqFt' * PRICE_PER_SF;
         ledLinearFeet' = (ribLength' / Fin 12) * count params;
         ledPrice' = ledLinearFeet' * PRICE_LED_PER_LF;
         totalPrice' = ribPrice' + (if ledEnabled then ledPrice' else Fin 0);
         ribsPerSheet' = Math_floor (SHEET_WIDTH / maxDepth params);
         sectionsPerRib' = Math_ceil (ribLength' / SHEET_HEIGHT);
         totalSlots = count params * sectionsPerRib';
         sheetsNeeded' = Math_ceil (totalSlots / Math_max ribsPerSheet' (Fin 1));
         sheetTotalCost' = sheetsNeeded' * SHEET_PRICE;
         wallCoverage' =
           (if installationMode = Both
            then toFixed 1 (totalWidth' / Fin 12) @ [CHR 0x27] @ '' wide x ''
                 @ toFixed 1 (height params / Fin 12) @ [CHR 0x27] @ '' wall + ''
                 @ toFixed 1 (ceilingRun params / Fin 12) @ [CHR 0x27] @ '' ceiling''
            else toFixed 1 (totalWidth' / Fin 12) @ [CHR 0x27] @ '' wide x ''
                 @ toFixed 1 (height params / Fin 12) @ [CHR 0x27] @ '' tall'')
     in \<lparr> totalWidth = totalWidth',
          ribLength = ribLength',
          totalSurfaceAreaSqFt = totalSurfaceAreaSqFt',
          ribPrice = ribPrice',
          ledLinearFeet = ledLinearFeet',
          ledPrice = ledPrice',
          totalPrice = totalPrice',
          ribsPerSheet = ribsPerSheet',
          sectionsPerRib = sectionsPerRib',
          sheetsNeeded = sheetsNeeded',
          sheetTotalCost = sheetTotalCost',
          wallCoverage = wallCoverage' \<rparr>)"

section \<open>Outcomes and loops\<close>

text \<open>
  A call of the engine returns a value, throws, or never returns. The outcome of a call
  is \<open>Some (Inr v)\<close> when it returns \<open>v\<close>, \<open>Some (Inl e)\<close> when it throws
  \<open>e\<close>, and \<open>None\<close> when it does not terminate. The only exception the engine can
  raise is the \<open>TypeError\<close> of reading a property of \<open>undefined\<close>.
\<close>

datatype error = TypeError

type_synonym 'a outcome = "(error + 'a) option"

definition and_then :: "'a outcome \<Rightarrow> ('a \<Rightarrow> 'b outcome) \<Rightarrow> 'b outcome" where
  "and_then m f = (case m of None \<Rightarrow> None | Some (Inl e) \<Rightarrow> Some (Inl e) | Some (Inr v) \<Rightarrow> f v)"

text \<open>
  \<open>for (let i = i0; cond(i); i++) s = body(i, s)\<close>: the loop counter is a natural
  number, the bound it is compared with is a JavaScript number and may be infinite.
\<close>

partial_function (option) js_for ::
  "(nat \<Rightarrow> bool) \<Rightarrow> (nat \<Rightarrow> 's \<Rightarrow> (error + 's) option) \<Rightarrow> nat \<Rightarrow> 's \<Rightarrow> (error + 's) option"
where
  "js_for cond body i s =
     (if cond i
      then (case body i s of
              None \<Rightarrow> None
            | Some (Inl e) \<Rightarrow> Some (Inl e)
            | Some (Inr s') \<Rightarrow> js_for cond body (Suc i) s')
      else Some (Inr s))"

text \<open>Reading an array at a JavaScript number: \<open>undefined\<close> off the array.\<close>

definition array_get :: "'a list \<Rightarrow> jsnum \<Rightarrow> 'a option" where
  "array_get xs k =
     (case k of
        Fin a \<Rightarrow> (if 0 \<le> a \<and> a = of_int \<lfloor>a\<rfloor> \<and> nat \<lfloor>a\<rfloor> < length xs
                  then Some (xs ! nat \<lfloor>a\<rfloor>) else None)
      | _ \<Rightarrow> None)"

text \<open>\<open>Array.prototype.slice(start, end)\<close>; \<open>end\<close> may be left out.\<close>

fun ToIntegerOrInfinity :: "jsnum \<Rightarrow> jsnum" where
  "ToIntegerOrInfinity NaN = Fin 0"
| "ToIntegerOrInfinity (Fin a) = Fin (trunc a)"
| "ToIntegerOrInfinity a = a"

fun relative_index :: "nat \<Rightarrow> jsnum \<Rightarrow> nat" where
  "relative_index len NInf = 0"
| "relative_index len PInf = len"
| "relative_index len (Fin a) =
     (if a < 0 then nat (max (int len + \<lfloor>a\<rfloor>) 0) else min (nat \<lfloor>a\<rfloor>) len)"
| "relative_index len NaN = 0"

definition js_slice :: "'a list \<Rightarrow> jsnum \<Rightarrow> jsnum option \<Rightarrow> 'a list" where
  "js_slice xs start end' =
     (let len = length xs;
          k = relative_index len (ToIntegerOrInfinity start);
          final = (case end' of None \<Rightarrow> len
                   | Some e \<Rightarrow> relative_index len (ToIntegerOrInfinity e))
      in take (final - k) (drop k xs))"

section \<open>Image sampling\<close>

text \<open>
  The module-level variables \<open>imageData\<close> and \<open>imageCanvas\<close> are set and cleared
  together; they are one optional value, passed to every function that reads them.
  \<open>img_data\<close> is the RGBA byte array of the decoded image.
\<close>

record ImageSource =
  img_width :: nat
  img_height :: nat
  img_data :: "nat list"

definition data_at :: "ImageSource \<Rightarrow> jsnum \<Rightarrow> jsnum" where
  "data_at im idx = (case array_get (img_data im) idx of Some b \<Rightarrow> Fin (real b) | None \<Rightarrow> NaN)"

definition sampleImageBrightness :: "ImageSource option \<Rightarrow> jsnum \<Rightarrow> jsnum \<Rightarrow> jsnum \<Rightarrow> jsnum" where
  "sampleImageBrightness img u v imageScale =
     (case img of
        None \<Rightarrow> Fin 0.5
      | Some im \<Rightarrow>
         (let su0 = jmod (u / imageScale) (Fin 1);
              sv0 = jmod (v / imageScale) (Fin 1);
              su = (if jlt su0 (Fin 0) then su0 + Fin 1 else su0);
              sv = (if jlt sv0 (Fin 0) then sv0 + Fin 1 else sv0);
              px = Math_floor (su * (Fin (real (img_width im)) - Fin 1));
              py = Math_floor ((Fin 1 - sv) * (Fin (real (img_height im)) - Fin 1));
              idx = (py * Fin (real (img_width im)) + px) * Fin 4;
              r = data_at im idx;
              g = data_at im (idx + Fin 1);
              b = data_at im (idx + Fin 2)
          in (Fin 0.299 * r + Fin 0.587 * g + Fin 0.114 * b) / Fin 255))"

section \<open>Wave functions\<close>

definition waveFunction :: "jsnum \<Rightarrow> jsnum \<Rightarrow> jsnum \<Rightarrow> jsnum \<Rightarrow> jsnum" where
  "waveFunction t frequency' waveType' phaseShift =
     (let angle = t * frequency' * Math_PI * Fin 2 + phaseShift
      in if waveType' = Fin 0 then Math_sin angle
         else if waveType' = Fin 1 then Math_sin angle * Math_abs (Math_sin angle)
         else if waveType' = Fin 2 then Math_asin (Math_sin angle) / (Math_PI / Fin 2)
         else Math_sin angle)"

section \<open>Control point generation\<close>

datatype Vector2 = Vector2 (vx: jsnum) (vy: jsnum)

definition generateControlPoints ::
  "ImageSource option \<Rightarrow> RibParams \<Rightarrow> jsnum \<Rightarrow> jsnum \<Rightarrow> Vector2 list outcome" where
  "generateControlPoints img params ribIndex imageScale =
     (let depthRange = maxDepth params - minDepth params;
          phaseShift = ribIndex * phase params * Math_PI * Fin 2
      in js_for (\<lambda>i. jlt (Fin (real i)) (controlPoints params))
           (\<lambda>i points.
              let t = Fin (real i) / (controlPoints params - Fin 1);
                  y = t * height params;
                  depth =
                    (if img \<noteq> None
                     then (let u = (if jgt (count params) (Fin 1)
                                    then ribIndex / (count params - Fin 1) else Fin 0.5);
                               brightness = sampleImageBrightness img u t imageScale
                           in minDepth params + brightness * depthRange)
                     else (let wave = waveFunction t (frequency params) (waveType params) phaseShift
                           in minDepth params + (wave + Fin 1) / Fin 2 * depthRange))
              in Some (Inr (points @ [Vector2 depth y])))
           0 [])"

definition generateControlPointsLPath ::
  "ImageSource option \<Rightarrow> RibParams \<Rightarrow> jsnum \<Rightarrow> jsnum \<Rightarrow> jsnum \<Rightarrow> Vector2 list outcome" where
  "generateControlPointsLPath img params ribIndex totalPath imageScale =
     (let depthRange = maxDepth params - minDepth params;
          phaseShift = ribIndex * phase params * Math_PI * Fin 2;
          numPts = Math_round (controlPoints params * (totalPath / height params))
      in js_for (\<lambda>i. jlt (Fin (real i)) numPts)
           (\<lambda>i points.
              let t = Fin (real i) / (numPts - Fin 1);
                  y = t * totalPath;
                  depth =
                    (if img \<noteq> None
                     then (let u = (if jgt (count params) (Fin 1)
                                    then ribIndex / (count params - Fin 1) else Fin 0.5);
                               brightness = sampleImageBrightness img u t imageScale
                           in minDepth params + brightness * depthRange)
                     else (let wave = waveFunction t (frequency params) (waveType params) phaseShift
                           in minDepth params + (wave + Fin 1) / Fin 2 * depthRange))
              in Some (Inr (points @ [Vector2 depth y])))
           0 [])"

section \<open>Spline evaluation\<close>

text \<open>
  Modelled from the spec: \<open>THREE.SplineCurve\<close> and its \<open>getPoints\<close>, which
  \<open>evaluateSplineCurve\<close> calls, belong to the three.js library and are not part of the
  repository. The spec asks for uniform Catmull-Rom interpolation through the control
  points, sampled at \<open>resolution + 1\<close> parameters \<open>d / resolution\<close>; the definitions
  follow the library's \<open>CatmullRom\<close>, \<open>SplineCurve.getPoint\<close> and
  \<open>Curve.getPoints\<close>. Reading a coordinate of a point that the array does not hold
  throws.
\<close>

definition CatmullRom :: "jsnum \<Rightarrow> jsnum \<Rightarrow> jsnum \<Rightarrow> jsnum \<Rightarrow> jsnum \<Rightarrow> jsnum" where
  "CatmullRom t p0 p1 p2 p3 =
     (let v0 = (p2 - p0) * Fin 0.5;
          v1 = (p3 - p1) * Fin 0.5;
          t2 = t * t;
          t3 = t * t2
      in (Fin 2 * p1 - Fin 2 * p2 + v0 + v1) * t3
         + (Fin (- 3) * p1 + Fin 3 * p2 - Fin 2 * v0 - v1) * t2 + v0 * t + p1)"

definition getPoint :: "Vector2 list \<Rightarrow> jsnum \<Rightarrow> error + Vector2" where
  "getPoint points t =
     (let len = Fin (real (length points));
          p = (len - Fin 1) * t;
          intPoint = Math_floor p;
          weight = p - intPoint;
          i0 = (if intPoint = Fin 0 then intPoint else intPoint - Fin 1);
          i1 = intPoint;
          i2 = (if jgt intPoint (len - Fin 2) then len - Fin 1 else intPoint + Fin 1);
          i3 = (if jgt intPoint (len - Fin 3) then len - Fin 1 else intPoint + Fin 2)
      in case (array_get points i0, array_get points i1, array_get points i2, array_get points i3) of
           (Some p0, Some p1, Some p2, Some p3) \<Rightarrow>
             Inr (Vector2 (CatmullRom weight (vx p0) (vx p1) (vx p2) (vx p3))
                          (CatmullRom weight (vy p0) (vy p1) (vy p2) (vy p3)))
         | _ \<Rightarrow> Inl TypeError)"

definition getPoints :: "Vector2 list \<Rightarrow> jsnum \<Rightarrow> Vector2 list outcome" where
  "getPoints points divisions =
     js_for (\<lambda>d. jle (Fin (real d)) divisions)
       (\<lambda>d acc. case getPoint points (Fin (real d) / divisions) of
                   Inl e \<Rightarrow> Some (Inl e)
                 | Inr pt \<Rightarrow> Some (Inr (acc @ [pt])))
       0 []"

definition evaluateSplineCurve :: "Vector2 list \<Rightarrow> jsnum \<Rightarrow> Vector2 list outcome" where
  "evaluateSplineCurve controlPoints' resolution = getPoints controlPoints' resolution"

section \<open>Full rib generation\<close>

record RibProfile =
  rp_index :: nat
  rp_profile :: "Vector2 list"
  rp_controlPoints :: "Vector2 list"
  rp_height :: jsnum
  rp_thickness :: jsnum
  rp_ceilingProfile :: "Vector2 list option"
  rp_ceilingRun :: "jsnum option"

record Generated =
  ribProfiles :: "RibProfile list"
  ceilingProfilesArr :: "Vector2 list list"

text \<open>One pass of the loop over the ribs, on the two arrays being built.\<close>

definition rib_step ::
  "ImageSource option \<Rightarrow> RibParams \<Rightarrow> InstallationMode \<Rightarrow> jsnum \<Rightarrow> nat \<Rightarrow> Generated
     \<Rightarrow> Generated outcome" where
  "rib_step img params installationMode imageScale i acc =
     (if installationMode = Both
      then (let ceilingRun' = ceilingRun params;
                totalPath = height params + ceilingRun'
            in and_then (generateControlPointsLPath img params (Fin (real i)) totalPath imageScale)
                 (\<lambda>fullControlPoints.
                    let totalRes = Math_round (displayResolution params * (totalPath / height params))
                    in and_then (evaluateSplineCurve fullControlPoints totalRes)
                         (\<lambda>fullProfile.
                            let splitIndex = Math_round ((height params / totalPath)
                                               * Fin (real (length fullProfile)));
                                profile = js_slice fullProfile (Fin 0) (Some (splitIndex + Fin 1));
                                controlPts = filter (\<lambda>p. jle (vy p) (height params)) fullControlPoints;
                                ceilingSegment = map (\<lambda>p. Vector2 (vx p) (vy p - height params))
                                                   (js_slice fullProfile splitIndex None)
                            in Some (Inr \<lparr> ribProfiles = ribProfiles acc @
                                   [\<lparr> rp_index = i,
                                      rp_profile = map (\<lambda>p. Vector2 (vx p) (vy p)) profile,
                                      rp_controlPoints = map (\<lambda>p. Vector2 (vx p) (vy p)) controlPts,
                                      rp_height = height params,
                                      rp_thickness = thickness params,
                                      rp_ceilingProfile = None,
                                      rp_ceilingRun = None \<rparr>],
                                 ceilingProfilesArr = ceilingProfilesArr acc @ [ceilingSegment] \<rparr>))))
      else and_then (generateControlPoints img params (Fin (real i)) imageScale)
             (\<lambda>controlPts.
                and_then (evaluateSplineCurve controlPts (displayResolution params))
                  (\<lambda>profile.
                     Some (Inr \<lparr> ribProfiles = ribProfiles acc @
                            [\<lparr> rp_index = i,
                               rp_profile = map (\<lambda>p. Vector2 (vx p) (vy p)) profile,
                               rp_controlPoints = map (\<lambda>p. Vector2 (vx p) (vy p)) controlPts,
                               rp_height = height params,
                               rp_thickness = thickness params,
                               rp_ceilingProfile = None,
                               rp_ceilingRun = None \<rparr>],
                          ceilingProfilesArr = ceilingProfilesArr acc \<rparr>))))"

text \<open>
  \<open>generateRibProfiles\<close> assigns \<open>params.minDepth\<close> and \<open>params.maxDepth\<close> before the
  loop: the outcome carries the parameter object as the call leaves it, next to the
  returned arrays.
\<close>

definition generateRibProfiles ::
  "ImageSource option \<Rightarrow> RibParams \<Rightarrow> InstallationMode \<Rightarrow> jsnum
     \<Rightarrow> (RibParams \<times> Generated) outcome" where
  "generateRibProfiles img params0 installationMode imageScale =
     (let actualMinDepth = Math_min (minDepth params0) (maxDepth params0);
          actualMaxDepth = Math_max (minDepth params0) (maxDepth params0);
          params = params0\<lparr>minDepth := actualMinDepth, maxDepth := actualMaxDepth\<rparr>
      in and_then
           (js_for (\<lambda>i. jlt (Fin (real i)) (count params))
              (rib_step img params installationMode imageScale)
              0 \<lparr> ribProfiles = [], ceilingProfilesArr = [] \<rparr>)
           (\<lambda>res. Some (Inr (params, res))))"

section \<open>DXF export\<close>

text \<open>\<open>profile.forEach\<close>: one \<open>VERTEX\<close> record for each point, appended to the document.\<close>

fun forEach_point :: "jsnum \<Rightarrow> Vector2 list \<Rightarrow> string \<Rightarrow> string" where
  "forEach_point offsetX [] dxf = dxf"
| "forEach_point offsetX (point # rest) dxf =
     forEach_point offsetX rest
       (dxf @ ''0\<newline>VERTEX\<newline>8\<newline>CURVES\<newline>''
            @ ''10\<newline>'' @ toFixed 6 (offsetX + vx point) @ ''\<newline>20\<newline>''
            @ toFixed 6 (vy point) @ ''\<newline>30\<newline>0.0\<newline>70\<newline>8\<newline>'')"

text \<open>
  \<open>ribProfiles.forEach\<close>: \<open>firstPoint\<close> and \<open>lastPoint\<close> are \<open>undefined\<close> for an
  empty profile, and the first read of \<open>firstPoint.x\<close> throws.
\<close>

fun forEach_rib :: "jsnum \<Rightarrow> jsnum \<Rightarrow> RibProfile list \<Rightarrow> nat \<Rightarrow> string \<Rightarrow> error + string" where
  "forEach_rib height' dxfSpacing [] ribIndex dxf = Inr dxf"
| "forEach_rib height' dxfSpacing (rib # rest) ribIndex dxf =
     (let offsetX = Fin (real ribIndex) * dxfSpacing;
          profile = rp_profile rib
      in case (array_get profile (Fin 0),
               array_get profile (Fin (real (length profile)) - Fin 1)) of
           (Some firstPoint, Some lastPoint) \<Rightarrow>
             (let dxf1 = dxf @ ''0\<newline>LINE\<newline>8\<newline>LINES\<newline>''
                    @ ''10\<newline>'' @ toFixed 6 offsetX @ ''\<newline>20\<newline>0.0\<newline>30\<newline>0.0\<newline>''
                    @ ''11\<newline>'' @ toFixed 6 (offsetX + vx firstPoint) @ ''\<newline>21\<newline>''
                    @ toFixed 6 (vy firstPoint) @ ''\<newline>31\<newline>0.0\<newline>'';
                  dxf2 = dxf1 @ ''0\<newline>POLYLINE\<newline>8\<newline>CURVES\<newline>66\<newline>1\<newline>70\<newline>4\<newline>'';
                  dxf3 = forEach_point offsetX profile dxf2;
                  dxf4 = dxf3 @ ''0\<newline>SEQEND\<newline>8\<newline>CURVES\<newline>'';
                  dxf5 = dxf4 @ ''0\<newline>LINE\<newline>8\<newline>LINES\<newline>''
                    @ ''10\<newline>'' @ toFixed 6 (offsetX + vx lastPoint) @ ''\<newline>20\<newline>''
                    @ toFixed 6 (vy lastPoint) @ ''\<newline>30\<newline>0.0\<newline>''
                    @ ''11\<newline>'' @ toFixed 6 offsetX @ ''\<newline>21\<newline>''
                    @ toFixed 6 height' @ ''\<newline>31\<newline>0.0\<newline>'';
                  dxf6 = dxf5 @ ''0\<newline>LINE\<newline>8\<newline>LINES\<newline>''
                    @ ''10\<newline>'' @ toFixed 6 offsetX @ ''\<newline>20\<newline>''
                    @ toFixed 6 height' @ ''\<newline>30\<newline>0.0\<newline>''
                    @ ''11\<newline>'' @ toFixed 6 offsetX @ ''\<newline>21\<newline>0.0\<newline>31\<newline>0.0\<newline>''
              in forEach_rib height' dxfSpacing rest (Suc ribIndex) dxf6)
         | _ \<Rightarrow> Inl TypeError)"

definition dxf_preamble :: string where
  "dxf_preamble =
     ''0\<newline>SECTION\<newline>2\<newline>HEADER\<newline>''
     @ ''9\<newline>$ACADVER\<newline>1\<newline>AC1009\<newline>''
     @ ''9\<newline>$INSUNITS\<newline>70\<newline>1\<newline>''
     @ ''0\<newline>ENDSEC\<newline>''
     @ ''0\<newline>SECTION\<newline>2\<newline>TABLES\<newline>''
     @ ''0\<newline>TABLE\<newline>2\<newline>LAYER\<newline>70\<newline>2\<newline>''
     @ ''0\<newline>LAYER\<newline>2\<newline>CURVES\<newline>70\<newline>0\<newline>62\<newline>5\<newline>6\<newline>CONTINUOUS\<newline>''
     @ ''0\<newline>LAYER\<newline>2\<newline>LINES\<newline>70\<newline>0\<newline>62\<newline>7\<newline>6\<newline>CONTINUOUS\<newline>''
     @ ''0\<newline>ENDTAB\<newline>''
     @ ''0\<newline>ENDSEC\<newline>''
     @ ''0\<newline>SECTION\<newline>2\<newline>ENTITIES\<newline>''"

definition exportDXF :: "RibProfile list \<Rightarrow> RibParams \<Rightarrow> error + string" where
  "exportDXF ribs params =
     (let height' = height params;
          maxDepth' = maxDepth params;
          dxfSpacing = maxDepth' * Fin 1.2
      in case forEach_rib height' dxfSpacing ribs 0 dxf_preamble of
           Inl e \<Rightarrow> Inl e
         | Inr dxf \<Rightarrow> Inr (dxf @ ''0\<newline>ENDSEC\<newline>0\<newline>EOF\<newline>''))"

section \<open>Concrete inputs\<close>

text \<open>The parameter set the application starts with (\<open>DEFAULT_PARAMS\<close>).\<close>

definition DEFAULT_PARAMS :: RibParams where
  "DEFAULT_PARAMS =
     \<lparr> height = Fin 144, minDepth = Fin 4, maxDepth = Fin 12, thickness = Fin 0.5,
       count = Fin 40, spacing = Fin 7, frequency = Fin 2, phase = Fin 0.25,
       waveType = Fin 0, controlPoints = Fin 20, displayResolution = Fin 200,
       color = ''#ffffff'', ceilingRun = Fin 96 \<rparr>"


text \<open>
  A one-row image of five pixels, the second one white and the others black (RGBA bytes).
\<close>

definition stripe_image :: ImageSource where
  "stripe_image =
     \<lparr> img_width = 5, img_height = 1,
       img_data = [0, 0, 0, 255,  255, 255, 255, 255,  0, 0, 0, 255,  0, 0, 0, 255,  0, 0, 0, 255] \<rparr>"

section \<open>Closed forms of the generators\<close>

text \<open>
  The point that pass \<open>i\<close> of the loop of \<open>generateControlPoints\<close> (with
  \<open>n = controlPoints\<close>, \<open>run = height\<close>) and of \<open>generateControlPointsLPath\<close> (with
  \<open>n = numPts\<close>, \<open>run = totalPath\<close>) appends, and the number of passes of
  \<open>for (let i = 0; i < b; i++)\<close>: none for \<open>NaN\<close>, no end for \<open>Infinity\<close>.
\<close>

definition controlPoint ::
  "ImageSource option \<Rightarrow> RibParams \<Rightarrow> jsnum \<Rightarrow> jsnum \<Rightarrow> jsnum \<Rightarrow> jsnum \<Rightarrow> nat \<Rightarrow> Vector2" where
  "controlPoint img params ribIndex imageScale n run i =
     (let depthRange = maxDepth params - minDepth params;
          phaseShift = ribIndex * phase params * Math_PI * Fin 2;
          t = Fin (real i) / (n - Fin 1);
          y = t * run;
          depth =
            (if img \<noteq> None
             then (let u = (if jgt (count params) (Fin 1)
                            then ribIndex / (count params - Fin 1) else Fin 0.5);
                       brightness = sampleImageBrightness img u t imageScale
                   in minDepth params + brightness * depthRange)
             else (let wave = waveFunction t (frequency params) (waveType params) phaseShift
                   in minDepth params + (wave + Fin 1) / Fin 2 * depthRange))
      in Vector2 depth y)"

fun passes :: "jsnum \<Rightarrow> nat option" where
  "passes (Fin c) = Some (nat \<lceil>c\<rceil>)"
| "passes PInf = None"
| "passes b = Some 0"

section \<open>Finite points\<close>

text \<open>A point of a profile is finite when neither coordinate is \<open>NaN\<close> or infinite.\<close>

fun finite_num :: "jsnum \<Rightarrow> bool" where
  "finite_num (Fin a) = True"
| "finite_num a = False"

definition finite_point :: "Vector2 \<Rightarrow> bool" where
  "finite_point p = (finite_num (vx p) \<and> finite_num (vy p))"

text \<open>Two control points: the foot and the top of a rib of the default height.\<close>

definition two_points :: "Vector2 list" where
  "two_points = [Vector2 (Fin 4) (Fin 0), Vector2 (Fin 12) (Fin 144)]"

section \<open>Pieces of the rib loop\<close>

text \<open>
  Names for what one pass of the loop of \<open>generateRibProfiles\<close> computes in mode
  \<open>both\<close>: the dense profile of the whole L-path of rib \<open>i\<close>, the index at which it
  is split, and the ceiling segment, re-based by \<open>height\<close>. \<open>no_ribs\<close> is the pair of
  empty arrays the loop starts from, \<open>reordered\<close> the parameter object after the two
  assignments that precede the loop.
\<close>

definition fullProfile_of ::
  "ImageSource option \<Rightarrow> RibParams \<Rightarrow> jsnum \<Rightarrow> nat \<Rightarrow> Vector2 list outcome" where
  "fullProfile_of img params imageScale i =
     and_then (generateControlPointsLPath img params (Fin (real i))
                 (height params + ceilingRun params) imageScale)
       (\<lambda>fullControlPoints.
          evaluateSplineCurve fullControlPoints
            (Math_round (displayResolution params
                           * ((height params + ceilingRun params) / height params))))"

definition splitIndex_of :: "RibParams \<Rightarrow> Vector2 list \<Rightarrow> jsnum" where
  "splitIndex_of params fullProfile =
     Math_round ((height params / (height params + ceilingRun params))
                   * Fin (real (length fullProfile)))"

definition ceilingSegment_of :: "RibParams \<Rightarrow> Vector2 list \<Rightarrow> Vector2 list" where
  "ceilingSegment_of params fullProfile =
     map (\<lambda>p. Vector2 (vx p) (vy p - height params))
       (js_slice fullProfile (splitIndex_of params fullProfile) None)"

definition no_ribs :: Generated where
  "no_ribs = \<lparr> ribProfiles = [], ceilingProfilesArr = [] \<rparr>"

definition reordered :: "RibParams \<Rightarrow> RibParams" where
  "reordered p = p\<lparr>minDepth := Math_min (minDepth p) (maxDepth p),
                    maxDepth := Math_max (minDepth p) (maxDepth p)\<rparr>"

text \<open>
  A small corner installation: one rib, 100 up the wall and 100 along the ceiling, two
  control points and a display resolution of 2 for the wall height, a flat wave; and what
  \<open>generateRibProfiles\<close> returns for it.
\<close>

definition small_params :: RibParams where
  "small_params = DEFAULT_PARAMS\<lparr>height := Fin 100, ceilingRun := Fin 100, count := Fin 1,
                                  controlPoints := Fin 2, displayResolution := Fin 2, frequency := Fin 0\<rparr>"

definition small_generated :: Generated where
  "small_generated =
     \<lparr> ribProfiles =
         [\<lparr> rp_index = 0,
            rp_profile = [Vector2 (Fin 8) (Fin 0), Vector2 (Fin 8) (Fin (775 / 16)),
                          Vector2 (Fin 8) (Fin 100), Vector2 (Fin 8) (Fin (2425 / 16))],
            rp_controlPoints = [Vector2 (Fin 8) (Fin 0), Vector2 (Fin 8) (Fin (200 / 3))],
            rp_height = Fin 100,
            rp_thickness = Fin 0.5,
            rp_ceilingProfile = None,
            rp_ceilingRun = None \<rparr>],
       ceilingProfilesArr =
         [[Vector2 (Fin 8) (Fin (825 / 16)), Vector2 (Fin 8) (Fin 100)]] \<rparr>"

text \<open>
  The same installation on a wall alone with the depths given in reverse order, and what
  \<open>generateRibProfiles\<close> returns for it when the striped image drives the depth: the
  rib samples a black pixel, so its depth is the smaller of the two depths throughout.
\<close>

definition swapped_small :: RibParams where
  "swapped_small = small_params\<lparr>minDepth := Fin 12, maxDepth := Fin 4\<rparr>"

definition stripe_generated :: Generated where
  "stripe_generated =
     \<lparr> ribProfiles =
         [\<lparr> rp_index = 0,
            rp_profile = [Vector2 (Fin 4) (Fin 0), Vector2 (Fin 4) (Fin 50), Vector2 (Fin 4) (Fin 100)],
            rp_controlPoints = [Vector2 (Fin 4) (Fin 0), Vector2 (Fin 4) (Fin 100)],
            rp_height = Fin 100,
            rp_thickness = Fin 0.5,
            rp_ceilingProfile = None,
            rp_ceilingRun = None \<rparr>],
       ceilingProfilesArr = [] \<rparr>"

section \<open>The entity group of one rib\<close>

text \<open>
  The text that \<open>exportDXF\<close> appends for one profile point (a \<open>VERTEX\<close> record) and
  for one rib with a profile that is not empty: the bottom \<open>LINE\<close>, the
  \<open>POLYLINE\<close> with its vertices and \<open>SEQEND\<close>, the top \<open>LINE\<close> and the left
  \<open>LINE\<close>.
\<close>

definition vertex_record :: "jsnum \<Rightarrow> Vector2 \<Rightarrow> string" where
  "vertex_record offsetX point =
     ''0\<newline>VERTEX\<newline>8\<newline>CURVES\<newline>''
     @ ''10\<newline>'' @ toFixed 6 (offsetX + vx point) @ ''\<newline>20\<newline>''
     @ toFixed 6 (vy point) @ ''\<newline>30\<newline>0.0\<newline>70\<newline>8\<newline>''"

definition rib_entities :: "jsnum \<Rightarrow> jsnum \<Rightarrow> nat \<Rightarrow> RibProfile \<Rightarrow> string" where
  "rib_entities height' dxfSpacing ribIndex rib =
     (let offsetX = Fin (real ribIndex) * dxfSpacing;
          firstPoint = hd (rp_profile rib);
          lastPoint = last (rp_profile rib)
      in ''0\<newline>LINE\<newline>8\<newline>LINES\<newline>''
         @ ''10\<newline>'' @ toFixed 6 offsetX @ ''\<newline>20\<newline>0.0\<newline>30\<newline>0.0\<newline>''
         @ ''11\<newline>'' @ toFixed 6 (offsetX + vx firstPoint) @ ''\<newline>21\<newline>''
         @ toFixed 6 (vy firstPoint) @ ''\<newline>31\<newline>0.0\<newline>''
         @ ''0\<newline>POLYLINE\<newline>8\<newline>CURVES\<newline>66\<newline>1\<newline>70\<newline>4\<newline>''
         @ concat (map (vertex_record offsetX) (rp_profile rib))
         @ ''0\<newline>SEQEND\<newline>8\<newline>CURVES\<newline>''
         @ ''0\<newline>LINE\<newline>8\<newline>LINES\<newline>''
         @ ''10\<newline>'' @ toFixed 6 (offsetX + vx lastPoint) @ ''\<newline>20\<newline>''
         @ toFixed 6 (vy lastPoint) @ ''\<newline>30\<newline>0.0\<newline>''
         @ ''11\<newline>'' @ toFixed 6 offsetX @ ''\<newline>21\<newline>''
         @ toFixed 6 height' @ ''\<newline>31\<newline>0.0\<newline>''
         @ ''0\<newline>LINE\<newline>8\<newline>LINES\<newline>''
         @ ''10\<newline>'' @ toFixed 6 offsetX @ ''\<newline>20\<newline>''
         @ toFixed 6 height' @ ''\<newline>30\<newline>0.0\<newline>''
         @ ''11\<newline>'' @ toFixed 6 offsetX @ ''\<newline>21\<newline>0.0\<newline>31\<newline>0.0\<newline>'')"

text \<open>A rib record around a given profile.\<close>

definition rib_with :: "Vector2 list \<Rightarrow> RibProfile" where
  "rib_with profile =
     \<lparr> rp_index = 0, rp_profile = profile, rp_controlPoints = profile,
       rp_height = Fin 144, rp_thickness = Fin 0.5,
       rp_ceilingProfile = None, rp_ceilingRun = None \<rparr>"

section \<open>Loops: closed forms, invariants, divergence\<close>

lemma js_for_fold:
  assumes "\<And>j. i \<le> j \<Longrightarrow> j < N \<Longrightarrow> cond j" and "\<not> cond N" and "i \<le> N"
    and "\<And>j s. i \<le> j \<Longrightarrow> j < N \<Longrightarrow> body j s = Some (Inr (step j s))"
  shows "js_for cond body i s = Some (Inr (fold step [i..<N] s))"
  using assms
proof (induction "N - i" arbitrary: i s)
  case 0
  then have "i = N" by simp
  with 0 show ?case by (simp add: js_for.simps)
next
  case (Suc k)
  then have lt: "i < N" by simp
  have "js_for cond body (Suc i) (step i s) = Some (Inr (fold step [Suc i..<N] (step i s)))"
    using Suc.prems Suc.hyps(2) lt by (intro Suc.hyps(1)) auto
  moreover have "cond i" using Suc.prems(1) lt by simp
  moreover have "body i s = Some (Inr (step i s))" using Suc.prems(4) lt by simp
  ultimately show ?case
    using lt by (subst js_for.simps) (simp add: upt_conv_Cons)
qed

lemma fold_push: "fold (\<lambda>j acc. acc @ [f j]) js acc = acc @ map f js"
  by (induction js arbitrary: acc) simp_all

lemma js_for_push:
  assumes "\<And>j. j < N \<Longrightarrow> cond j" and "\<not> cond N"
    and "\<And>j acc. j < N \<Longrightarrow> body j acc = Some (Inr (acc @ [f j]))"
  shows "js_for cond body 0 [] = Some (Inr (map f [0..<N]))"
  using js_for_fold [of 0 N cond body "\<lambda>j acc. acc @ [f j]" "[]"] assms
  by (simp add: fold_push)

lemma js_for_total:
  assumes "\<And>j. i \<le> j \<Longrightarrow> j < N \<Longrightarrow> cond j" and "\<not> cond N" and "i \<le> N" and "I i s"
    and "\<And>j s. i \<le> j \<Longrightarrow> j < N \<Longrightarrow> I j s \<Longrightarrow> \<exists>s'. body j s = Some (Inr s') \<and> I (Suc j) s'"
  shows "\<exists>s'. js_for cond body i s = Some (Inr s') \<and> I N s'"
  using assms
proof (induction "N - i" arbitrary: i s)
  case 0
  then have "i = N" by simp
  with 0 show ?case by (simp add: js_for.simps)
next
  case (Suc k)
  then have lt: "i < N" by simp
  from Suc.prems(5) [of i s] lt Suc.prems(4)
  obtain s1 where s1: "body i s = Some (Inr s1)" "I (Suc i) s1" by auto
  have "\<exists>s'. js_for cond body (Suc i) s1 = Some (Inr s') \<and> I N s'"
    using Suc.prems Suc.hyps(2) lt s1 by (intro Suc.hyps(1)) auto
  moreover have "cond i" using Suc.prems(1) lt by simp
  ultimately show ?case
    using s1 by (subst js_for.simps) simp
qed

lemma js_for_partial:
  assumes "js_for cond body i s = Some (Inr s')" and "I i s"
    and "\<And>j t t'. cond j \<Longrightarrow> I j t \<Longrightarrow> body j t = Some (Inr t') \<Longrightarrow> I (Suc j) t'"
  shows "\<exists>k. \<not> cond k \<and> I k s'"
proof -
  have "c = cond \<longrightarrow> b = body \<longrightarrow> I i s \<longrightarrow> (\<forall>s'. y = Inr s' \<longrightarrow> (\<exists>k. \<not> cond k \<and> I k s'))"
    if "js_for c b i s = Some y" for c b i s y
    using that
  proof (induction c b i s y rule: js_for.raw_induct [rotated 1, consumes 1, case_names step])
    case (step js_for' c b i s y)
    show ?case
    proof (intro impI allI)
      fix s' assume eq: "c = cond" "b = body" and inv: "I i s" and y: "y = Inr s'"
      show "\<exists>k. \<not> cond k \<and> I k s'"
      proof (cases "cond i")
        case False
        with step(2) eq y inv show ?thesis by auto
      next
        case True
        with step(2) eq y obtain t where t: "body i s = Some (Inr t)" "js_for' cond body (Suc i) t = Some y"
          by (auto split: option.splits sum.splits)
        from assms(3) [OF True inv t(1)] have "I (Suc i) t" .
        with step(1) [OF t(2)] eq y show ?thesis by simp
      qed
    qed
  qed
  with assms show ?thesis by blast
qed

lemma js_for_diverges:
  assumes "\<And>j. i \<le> j \<Longrightarrow> cond j"
    and "\<And>j t. i \<le> j \<Longrightarrow> \<exists>t'. body j t = Some (Inr t')"
  shows "js_for cond body i s = None"
proof -
  have "c = cond \<longrightarrow> b = body \<longrightarrow> i \<le> k \<longrightarrow> False"
    if "js_for c b k t = Some y" for c b k t y
    using that
  proof (induction c b k t y rule: js_for.raw_induct [rotated 1, consumes 1, case_names step])
    case (step js_for' c b k t y)
    show ?case
    proof (intro impI)
      assume eq: "c = cond" "b = body" and le: "i \<le> k"
      from assms(2) [OF le, of t] obtain t' where t': "body k t = Some (Inr t')" by blast
      from assms(1) [OF le] step(2) eq t' have "js_for' cond body (Suc k) t' = Some y" by simp
      from step(1) [OF this] eq le show False by simp
    qed
  qed
  then have "js_for cond body i s \<noteq> Some y" for y by blast
  then show ?thesis by (cases "js_for cond body i s") auto
qed

section \<open>Pricing: the worked example and the sheet layout\<close>

lemmas price_consts =
  PRICE_PER_SF_def PRICE_LED_PER_LF_def SHEET_WIDTH_def SHEET_HEIGHT_def SHEET_PRICE_def

text \<open>
  Claim C4. With \<open>count = 40\<close>, \<open>height = 144\<close>, \<open>maxDepth = 12\<close>, wall
  installation and LEDs enabled, whatever the other parameters are, \<open>calculatePricing\<close>
  returns \<open>ribPrice = 21600\<close>, \<open>ledPrice = 14400\<close> and \<open>totalPrice = 36000\<close>.
\<close>

theorem budget_scenario:
  "ribPrice (calculatePricing (params\<lparr>count := Fin 40, height := Fin 144, maxDepth := Fin 12\<rparr>) Wall True) = Fin 21600
   \<and> ledPrice (calculatePricing (params\<lparr>count := Fin 40, height := Fin 144, maxDepth := Fin 12\<rparr>) Wall True) = Fin 14400
   \<and> totalPrice (calculatePricing (params\<lparr>count := Fin 40, height := Fin 144, maxDepth := Fin 12\<rparr>) Wall True) = Fin 36000"
  by (simp add: calculatePricing_def Let_def price_consts)

lemma Math_max_Fin: "Math_max (Fin a) (Fin b) = Fin (max a b)"
  by (simp add: max_def)

lemma pricing_ribLength:
  "ribLength (calculatePricing p m led) = (if m = Both then height p + ceilingRun p else height p)"
  by (simp add: calculatePricing_def Let_def)

lemma pricing_ribsPerSheet:
  "ribsPerSheet (calculatePricing p m led) = Math_floor (Fin 48 / maxDepth p)"
  by (simp add: calculatePricing_def Let_def price_consts)

lemma pricing_sectionsPerRib:
  "sectionsPerRib (calculatePricing p m led) = Math_ceil (ribLength (calculatePricing p m led) / Fin 144)"
  by (simp add: calculatePricing_def Let_def price_consts)

lemma pricing_sheetsNeeded:
  "sheetsNeeded (calculatePricing p m led) =
     Math_ceil ((count p * sectionsPerRib (calculatePricing p m led))
                / Math_max (ribsPerSheet (calculatePricing p m led)) (Fin 1))"
  by (simp add: calculatePricing_def Let_def price_consts)

lemma pricing_sheetTotalCost:
  "sheetTotalCost (calculatePricing p m led) = sheetsNeeded (calculatePricing p m led) * Fin 1800"
  by (simp add: calculatePricing_def Let_def price_consts)

text \<open>
  Claim C7. For every parameter set and installation mode, \<open>calculatePricing\<close> returns
  \<open>ribLength = height\<close> (\<open>height + ceilingRun\<close> in mode \<open>both\<close>),
  \<open>ribsPerSheet = floor (48 / maxDepth)\<close>, \<open>sectionsPerRib = ceil (ribLength / 144)\<close>,
  \<open>sheetsNeeded = ceil (count * sectionsPerRib / max (ribsPerSheet, 1))\<close> and
  \<open>sheetTotalCost = sheetsNeeded * 1800\<close>, in JavaScript arithmetic. When the lengths
  and the count are finite and \<open>maxDepth\<close> is not zero these are the floor and ceiling
  of the real quotients.
\<close>

theorem sheet_layout:
  "ribLength (calculatePricing p m led) = (if m = Both then height p + ceilingRun p else height p)
   \<and> ribsPerSheet (calculatePricing p m led) = Math_floor (Fin 48 / maxDepth p)
   \<and> sectionsPerRib (calculatePricing p m led) = Math_ceil (ribLength (calculatePricing p m led) / Fin 144)
   \<and> sheetsNeeded (calculatePricing p m led) =
       Math_ceil ((count p * sectionsPerRib (calculatePricing p m led))
                  / Math_max (ribsPerSheet (calculatePricing p m led)) (Fin 1))
   \<and> sheetTotalCost (calculatePricing p m led) = sheetsNeeded (calculatePricing p m led) * Fin 1800
   \<and> (\<forall>h c n d. height p = Fin h \<and> ceilingRun p = Fin c \<and> count p = Fin n \<and> maxDepth p = Fin d \<and> d \<noteq> 0
        \<longrightarrow> (let l = (if m = Both then h + c else h) in
             ribsPerSheet (calculatePricing p m led) = Fin (of_int \<lfloor>48 / d\<rfloor>)
           \<and> sectionsPerRib (calculatePricing p m led) = Fin (of_int \<lceil>l / 144\<rceil>)
           \<and> sheetsNeeded (calculatePricing p m led) =
               Fin (of_int \<lceil>n * of_int \<lceil>l / 144\<rceil> / of_int (max \<lfloor>48 / d\<rfloor> 1)\<rceil>)
           \<and> sheetTotalCost (calculatePricing p m led) =
               Fin (of_int (\<lceil>n * of_int \<lceil>l / 144\<rceil> / of_int (max \<lfloor>48 / d\<rfloor> 1)\<rceil> * 1800))))"
proof -
  have fin: "let l = (if m = Both then h + c else h) in
             ribsPerSheet (calculatePricing p m led) = Fin (of_int \<lfloor>48 / d\<rfloor>)
           \<and> sectionsPerRib (calculatePricing p m led) = Fin (of_int \<lceil>l / 144\<rceil>)
           \<and> sheetsNeeded (calculatePricing p m led) =
               Fin (of_int \<lceil>n * of_int \<lceil>l / 144\<rceil> / of_int (max \<lfloor>48 / d\<rfloor> 1)\<rceil>)
           \<and> sheetTotalCost (calculatePricing p m led) =
               Fin (of_int (\<lceil>n * of_int \<lceil>l / 144\<rceil> / of_int (max \<lfloor>48 / d\<rfloor> 1)\<rceil> * 1800))"
    if h: "height p = Fin h" "ceilingRun p = Fin c" "count p = Fin n" "maxDepth p = Fin d" "d \<noteq> 0"
    for h c n d
  proof -
    define l where "l = (if m = Both then h + c else h)"
    have L: "ribLength (calculatePricing p m led) = Fin l"
      by (simp add: pricing_ribLength h l_def)
    have R: "ribsPerSheet (calculatePricing p m led) = Fin (of_int \<lfloor>48 / d\<rfloor>)"
      by (simp add: pricing_ribsPerSheet h)
    have S: "sectionsPerRib (calculatePricing p m led) = Fin (of_int \<lceil>l / 144\<rceil>)"
      by (simp add: pricing_sectionsPerRib L)
    have mx: "max (real_of_int \<lfloor>48 / d\<rfloor>) 1 = of_int (max \<lfloor>48 / d\<rfloor> 1)"
      by (simp add: max_def)
    have "1 \<le> real_of_int (max \<lfloor>48 / d\<rfloor> 1)"
      by simp
    then have mx0: "real_of_int (max \<lfloor>48 / d\<rfloor> 1) \<noteq> 0"
      by linarith
    have N: "sheetsNeeded (calculatePricing p m led) =
               Fin (of_int \<lceil>n * of_int \<lceil>l / 144\<rceil> / of_int (max \<lfloor>48 / d\<rfloor> 1)\<rceil>)"
      unfolding pricing_sheetsNeeded R S h Math_max_Fin mx using mx0 by simp
    have C: "sheetTotalCost (calculatePricing p m led) =
               Fin (of_int (\<lceil>n * of_int \<lceil>l / 144\<rceil> / of_int (max \<lfloor>48 / d\<rfloor> 1)\<rceil> * 1800))"
      unfolding pricing_sheetTotalCost N by simp
    show ?thesis
      using R S N C unfolding l_def Let_def by simp
  qed
  show ?thesis
    by (intro conjI allI impI pricing_ribLength pricing_ribsPerSheet pricing_sectionsPerRib
        pricing_sheetsNeeded pricing_sheetTotalCost; elim conjE; rule fin)
qed

theorem sheet_layout_witness:
  "height DEFAULT_PARAMS = Fin 144 \<and> ceilingRun DEFAULT_PARAMS = Fin 96
   \<and> count DEFAULT_PARAMS = Fin 40 \<and> maxDepth DEFAULT_PARAMS = Fin 12 \<and> (12::real) \<noteq> 0
   \<and> ribsPerSheet (calculatePricing DEFAULT_PARAMS Both True) = Fin 4
   \<and> sectionsPerRib (calculatePricing DEFAULT_PARAMS Both True) = Fin 2
   \<and> sheetsNeeded (calculatePricing DEFAULT_PARAMS Both True) = Fin 20
   \<and> sheetTotalCost (calculatePricing DEFAULT_PARAMS Both True) = Fin 36000"
proof -
  have p: "height DEFAULT_PARAMS = Fin 144 \<and> ceilingRun DEFAULT_PARAMS = Fin 96
   \<and> count DEFAULT_PARAMS = Fin 40 \<and> maxDepth DEFAULT_PARAMS = Fin 12 \<and> (12::real) \<noteq> 0"
    by (simp add: DEFAULT_PARAMS_def)
  note sheet_layout [of DEFAULT_PARAMS Both True, THEN conjunct2, THEN conjunct2,
      THEN conjunct2, THEN conjunct2, THEN conjunct2, rule_format, of 144 96 40 12]
  with p show ?thesis by (simp add: Let_def)
qed

section \<open>Pricing and the order of the depths\<close>





section \<open>The brightness sampler tiles with period \<open>imageScale\<close>\<close>

lemma wrap_unit:
  "(if jlt (jmod (Fin x) (Fin 1)) (Fin 0) then jmod (Fin x) (Fin 1) + Fin 1 else jmod (Fin x) (Fin 1))
     = Fin (frac x)"
proof (cases "0 \<le> x")
  case True
  moreover have "\<not> x < of_int \<lfloor>x\<rfloor>" using of_int_floor_le [of x] by linarith
  ultimately show ?thesis by (simp add: trunc_def frac_def)
next
  case False
  show ?thesis
  proof (cases "x = of_int \<lfloor>x\<rfloor>")
    case True
    then have "\<lceil>x\<rceil> = \<lfloor>x\<rfloor>" by (metis ceiling_of_int)
    with True False show ?thesis by (simp add: trunc_def frac_def)
  next
    case nonint: False
    then have c: "\<lceil>x\<rceil> = \<lfloor>x\<rfloor> + 1" by (simp add: ceiling_altdef)
    have "x < of_int \<lfloor>x\<rfloor> + 1" by linarith
    with c False show ?thesis by (simp add: trunc_def frac_def)
  qed
qed

lemma sample_Some:
  assumes "b \<noteq> 0"
  shows "sampleImageBrightness (Some im) (Fin a) (Fin c) (Fin b) =
     (let su = Fin (frac (a / b)); sv = Fin (frac (c / b));
          px = Math_floor (su * (Fin (real (img_width im)) - Fin 1));
          py = Math_floor ((Fin 1 - sv) * (Fin (real (img_height im)) - Fin 1));
          idx = (py * Fin (real (img_width im)) + px) * Fin 4
      in (Fin 0.299 * data_at im idx + Fin 0.587 * data_at im (idx + Fin 1)
          + Fin 0.114 * data_at im (idx + Fin 2)) / Fin 255)"
proof -
  have u: "Fin a / Fin b = Fin (a / b)" and v: "Fin c / Fin b = Fin (c / b)"
    using assms by simp_all
  show ?thesis
    unfolding sampleImageBrightness_def option.case u v Let_def wrap_unit ..
qed

lemma sampler_period_exact:
  "b \<noteq> 0 \<Longrightarrow>
     sampleImageBrightness img (Fin a + Fin b) (Fin c) (Fin b)
       = sampleImageBrightness img (Fin a) (Fin c) (Fin b)"
proof (cases img)
  case None
  then show ?thesis by (simp add: sampleImageBrightness_def)
next
  case (Some im)
  assume b: "b \<noteq> 0"
  have "(a + b) / b = a / b + 1" using b by (simp add: field_simps)
  then have "frac ((a + b) / b) = frac (a / b)" by (simp add: frac_def)
  then show ?thesis
    unfolding Some plus_jsnum.simps sample_Some [OF b] by simp
qed

text \<open>
  Claim C5, as stated, fails: with \<open>imageScale = 2\<close> the sample at
  \<open>u = 0 + 1 / imageScale\<close> reads the white pixel of the striped image and the sample
  at \<open>u = 0\<close> a black one.
\<close>

theorem sampler_period_counterexample:
  "sampleImageBrightness (Some stripe_image) (Fin 0 + Fin 1 / Fin 2) (Fin 0) (Fin 2) = Fin 1
   \<and> sampleImageBrightness (Some stripe_image) (Fin 0) (Fin 0) (Fin 2) = Fin 0"
  by (simp add: sample_Some [of 2] Let_def stripe_image_def frac_def minus_jsnum_def data_at_def array_get_def)

text \<open>
  Claim C5, amended. The sampler divides by \<open>imageScale\<close> before it wraps, so the period
  along \<open>u\<close> is \<open>imageScale\<close>, not \<open>1 / imageScale\<close>: for every image (or none),
  every finite \<open>v\<close>, every \<open>imageScale\<close> that is a power of two between \<open>2^-20\<close>
  and \<open>2^20\<close> and every \<open>u\<close> that is a multiple of \<open>2^-20\<close> of magnitude at most
  \<open>2^20\<close>, \<open>sampleImageBrightness (u + imageScale, v, imageScale)\<close> equals
  \<open>sampleImageBrightness (u, v, imageScale)\<close>. These are inputs on which the sum
  \<open>u + imageScale\<close> and the two quotients by \<open>imageScale\<close> are binary fractions of
  fewer than 53 bits.
\<close>

theorem sampler_period_is_imageScale:
  assumes "b = 2 ^ k \<or> b = 1 / 2 ^ k" and "k \<le> 20"
    and "a = real_of_int i / 2 ^ 20" and "\<bar>i\<bar> \<le> 2 ^ 40"
  shows "sampleImageBrightness img (Fin a + Fin b) (Fin c) (Fin b)
           = sampleImageBrightness img (Fin a) (Fin c) (Fin b)"
proof -
  from assms(1) have "b \<noteq> 0" by auto
  then show ?thesis by (rule sampler_period_exact)
qed

theorem sampler_period_is_imageScale_witness:
  "((2::real) = 2 ^ 1 \<or> (2::real) = 1 / 2 ^ 1) \<and> (1::nat) \<le> 20
   \<and> (1 / 2 :: real) = real_of_int 524288 / 2 ^ 20 \<and> \<bar>524288 :: int\<bar> \<le> 2 ^ 40
   \<and> sampleImageBrightness (Some stripe_image) (Fin (1 / 2) + Fin 2) (Fin 0) (Fin 2) = Fin 1
   \<and> sampleImageBrightness (Some stripe_image) (Fin (1 / 2)) (Fin 0) (Fin 2) = Fin 1"
proof -
  have h: "(2::real) = 2 ^ 1 \<or> (2::real) = 1 / 2 ^ 1" "(1::nat) \<le> 20"
    "(1 / 2 :: real) = real_of_int 524288 / 2 ^ 20" "\<bar>524288 :: int\<bar> \<le> 2 ^ 40"
    by simp_all
  have v: "sampleImageBrightness (Some stripe_image) (Fin (1 / 2)) (Fin 0) (Fin 2) = Fin 1"
    by (simp add: sample_Some [of 2] Let_def stripe_image_def frac_def minus_jsnum_def data_at_def array_get_def)
  have e: "sampleImageBrightness (Some stripe_image) (Fin (1 / 2) + Fin 2) (Fin 0) (Fin 2) = Fin 1"
    using sampler_period_is_imageScale [OF h, of "Some stripe_image" 0] v by simp
  show ?thesis by (intro conjI h e v)
qed

section \<open>Control points for degenerate parameters\<close>

lemma less_passes: "real j < c \<longleftrightarrow> j < nat \<lceil>c\<rceil>"
proof -
  have "real j < c \<longleftrightarrow> int j < \<lceil>c\<rceil>"
    using less_ceiling_iff [of "int j" c] by simp
  then show ?thesis by auto
qed

lemma js_for_push_bound:
  assumes "passes b = Some N"
  shows "js_for (\<lambda>i. jlt (Fin (real i)) b) (\<lambda>i acc. Some (Inr (acc @ [f i]))) 0 []
           = Some (Inr (map f [0..<N]))"
proof (rule js_for_push)
  show "\<And>j. j < N \<Longrightarrow> jlt (Fin (real j)) b"
    using assms by (cases b) (auto simp: less_passes)
  show "\<not> jlt (Fin (real N)) b"
    using assms by (cases b) (auto simp: less_passes)
qed simp

lemma js_for_push_PInf:
  "js_for (\<lambda>i. jlt (Fin (real i)) PInf) (\<lambda>i acc. Some (Inr (acc @ [f i]))) i acc = None"
  by (rule js_for_diverges) simp_all

lemma js_for_push_passes:
  "js_for (\<lambda>i. jlt (Fin (real i)) b) (\<lambda>i acc. Some (Inr (acc @ [f i]))) 0 []
     = (case passes b of None \<Rightarrow> None | Some N \<Rightarrow> Some (Inr (map f [0..<N])))"
proof (cases "passes b")
  case None
  then have "b = PInf" by (cases b) simp_all
  then show ?thesis using js_for_push_PInf [of f 0 "[]"] by simp
next
  case (Some N)
  then show ?thesis by (simp add: js_for_push_bound)
qed

lemma generateControlPoints_eq:
  "generateControlPoints img p r s =
     (case passes (controlPoints p) of
        None \<Rightarrow> None
      | Some N \<Rightarrow> Some (Inr (map (controlPoint img p r s (controlPoints p) (height p)) [0..<N])))"
proof -
  have "generateControlPoints img p r s =
        js_for (\<lambda>i. jlt (Fin (real i)) (controlPoints p))
          (\<lambda>i acc. Some (Inr (acc @ [controlPoint img p r s (controlPoints p) (height p) i]))) 0 []"
    unfolding generateControlPoints_def controlPoint_def Let_def ..
  then show ?thesis by (simp only: js_for_push_passes)
qed

lemma generateControlPointsLPath_eq:
  "generateControlPointsLPath img p r run s =
     (case passes (Math_round (controlPoints p * (run / height p))) of
        None \<Rightarrow> None
      | Some N \<Rightarrow> Some (Inr (map (controlPoint img p r s
                    (Math_round (controlPoints p * (run / height p))) run) [0..<N])))"
proof -
  have "generateControlPointsLPath img p r run s =
        js_for (\<lambda>i. jlt (Fin (real i)) (Math_round (controlPoints p * (run / height p))))
          (\<lambda>i acc. Some (Inr (acc @ [controlPoint img p r s
                  (Math_round (controlPoints p * (run / height p))) run i]))) 0 []"
    unfolding generateControlPointsLPath_def controlPoint_def Let_def ..
  then show ?thesis by (simp only: js_for_push_passes)
qed

lemma NaN_arith [simp]:
  "a + NaN = NaN" "NaN + a = NaN" "a - NaN = NaN" "NaN - a = NaN"
  "a * NaN = NaN" "NaN * a = NaN" "a / NaN = NaN" "NaN / a = NaN"
  by (cases a; simp add: minus_jsnum_def)+





lemma passes_nat: "passes (Fin (real n)) = Some n"
  by simp




section \<open>The spline passes through its end points\<close>

lemma array_get_nat: "k < length xs \<Longrightarrow> array_get xs (Fin (real k)) = Some (xs ! k)"
  by (simp add: array_get_def)

lemma CatmullRom_0:
  "finite_num a \<Longrightarrow> finite_num b \<Longrightarrow> finite_num c \<Longrightarrow> finite_num d
     \<Longrightarrow> CatmullRom (Fin 0) a b c d = b"
  by (cases a; cases b; cases c; cases d) (simp_all add: CatmullRom_def Let_def minus_jsnum_def)

text \<open>The four neighbours that \<open>getPoint\<close> reads for the segment \<open>k\<close>.\<close>

lemma getPoint_segment:
  assumes L: "0 < length pts" and t: "0 \<le> t" "t \<le> 1"
  defines "k \<equiv> nat \<lfloor>(real (length pts) - 1) * t\<rfloor>"
  shows "k < length pts"
    and "getPoint pts (Fin t) =
       (let w = Fin ((real (length pts) - 1) * t) - Fin (real k);
            p0 = pts ! (if k = 0 then 0 else k - 1);
            p1 = pts ! k;
            p2 = pts ! (if length pts < k + 2 then length pts - 1 else k + 1);
            p3 = pts ! (if length pts < k + 3 then length pts - 1 else k + 2)
        in Inr (Vector2 (CatmullRom w (vx p0) (vx p1) (vx p2) (vx p3))
                        (CatmullRom w (vy p0) (vy p1) (vy p2) (vy p3))))"
proof -
  define n where "n = length pts"
  define x where "x = (real n - 1) * t"
  have n1: "0 \<le> real n - 1" using L by (simp add: n_def Suc_leI)
  have x0: "0 \<le> x" unfolding x_def using n1 t by (intro mult_nonneg_nonneg)
  have "x \<le> (real n - 1) * 1" unfolding x_def using n1 t
    by (intro mult_left_mono)
  then have x1: "x \<le> real n - 1" by simp
  have f0: "0 \<le> \<lfloor>x\<rfloor>" using x0 by simp
  have "\<lfloor>x\<rfloor> \<le> \<lfloor>real n - 1\<rfloor>" using x1 by (rule floor_mono)
  also have "\<lfloor>real n - 1\<rfloor> = int n - 1" by linarith
  finally have f1: "\<lfloor>x\<rfloor> \<le> int n - 1" .
  have k: "k = nat \<lfloor>x\<rfloor>" by (simp add: k_def x_def n_def)
  have rk: "of_int \<lfloor>x\<rfloor> = real k" using f0 by (simp add: k)
  show kn: "k < length pts" unfolding k n_def [symmetric] using f0 f1 by linarith
  have i0: "(if Fin (real k) = Fin 0 then Fin (real k) else Fin (real k) - Fin 1)
            = Fin (real (if k = 0 then 0 else k - 1))"
    by (auto simp: minus_jsnum_def of_nat_diff)
  have i2: "(if jgt (Fin (real k)) (Fin (real n) - Fin 2) then Fin (real n) - Fin 1
             else Fin (real k) + Fin 1)
            = Fin (real (if n < k + 2 then n - 1 else k + 1))"
    using kn by (auto simp: minus_jsnum_def jgt_def n_def of_nat_diff)
  have i3: "(if jgt (Fin (real k)) (Fin (real n) - Fin 3) then Fin (real n) - Fin 1
             else Fin (real k) + Fin 2)
            = Fin (real (if n < k + 3 then n - 1 else k + 2))"
    using kn by (auto simp: minus_jsnum_def jgt_def n_def of_nat_diff)
  have p: "(Fin (real n) - Fin 1) * Fin t = Fin x"
    by (simp add: minus_jsnum_def x_def)
  have g0: "array_get pts (Fin (real (if k = 0 then 0 else k - 1)))
            = Some (pts ! (if k = 0 then 0 else k - 1))"
    using kn by (intro array_get_nat) auto
  have g1: "array_get pts (Fin (real k)) = Some (pts ! k)"
    using kn by (rule array_get_nat)
  have g2: "array_get pts (Fin (real (if n < k + 2 then n - 1 else k + 1)))
            = Some (pts ! (if n < k + 2 then n - 1 else k + 1))"
    using kn by (intro array_get_nat) (auto simp: n_def)
  have g3: "array_get pts (Fin (real (if n < k + 3 then n - 1 else k + 2)))
            = Some (pts ! (if n < k + 3 then n - 1 else k + 2))"
    using kn by (intro array_get_nat) (auto simp: n_def)
  show "getPoint pts (Fin t) =
       (let w = Fin ((real (length pts) - 1) * t) - Fin (real k);
            p0 = pts ! (if k = 0 then 0 else k - 1);
            p1 = pts ! k;
            p2 = pts ! (if length pts < k + 2 then length pts - 1 else k + 1);
            p3 = pts ! (if length pts < k + 3 then length pts - 1 else k + 2)
        in Inr (Vector2 (CatmullRom w (vx p0) (vx p1) (vx p2) (vx p3))
                        (CatmullRom w (vy p0) (vy p1) (vy p2) (vy p3))))"
    unfolding getPoint_def n_def [symmetric] Let_def p Math_floor.simps rk i0 i2 i3 g0 g1 g2 g3
    by (simp add: x_def)
qed


lemma getPoint_returns:
  assumes "0 < length pts" "0 \<le> t" "t \<le> 1"
  shows "\<exists>pt. getPoint pts (Fin t) = Inr pt"
  using getPoint_segment(2) [OF assms] by (simp add: Let_def)

lemma getPoint_on_knot:
  assumes L: "0 < length pts" and t: "0 \<le> t" "t \<le> 1" and fin: "list_all finite_point pts"
    and knot: "(real (length pts) - 1) * t = real k"
  shows "getPoint pts (Fin t) = Inr (pts ! k)"
proof -
  have k: "nat \<lfloor>(real (length pts) - 1) * t\<rfloor> = k"
    unfolding knot by simp
  note seg = getPoint_segment [OF L t, unfolded k]
  define i0 where "i0 = (if k = 0 then 0 else k - 1)"
  define i2 where "i2 = (if length pts < k + 2 then length pts - 1 else k + 1)"
  define i3 where "i3 = (if length pts < k + 3 then length pts - 1 else k + 2)"
  have lt: "i0 < length pts" "k < length pts" "i2 < length pts" "i3 < length pts"
    using seg(1) by (auto simp: i0_def i2_def i3_def)
  have f: "finite_num (vx (pts ! i)) \<and> finite_num (vy (pts ! i))" if "i < length pts" for i
    using fin that by (simp add: list_all_length finite_point_def)
  have w: "Fin ((real (length pts) - 1) * t) - Fin (real k) = Fin 0"
    unfolding knot by (simp add: minus_jsnum_def)
  have x: "CatmullRom (Fin 0) (vx (pts ! i0)) (vx (pts ! k)) (vx (pts ! i2)) (vx (pts ! i3))
             = vx (pts ! k)"
    using f [OF lt(1)] f [OF lt(2)] f [OF lt(3)] f [OF lt(4)] by (intro CatmullRom_0) simp_all
  have y: "CatmullRom (Fin 0) (vy (pts ! i0)) (vy (pts ! k)) (vy (pts ! i2)) (vy (pts ! i3))
             = vy (pts ! k)"
    using f [OF lt(1)] f [OF lt(2)] f [OF lt(3)] f [OF lt(4)] by (intro CatmullRom_0) simp_all
  show ?thesis
    unfolding seg(2) Let_def w i0_def [symmetric] i2_def [symmetric] i3_def [symmetric] x y
    by simp
qed

lemma getPoint_first:
  assumes "0 < length pts" "list_all finite_point pts"
  shows "getPoint pts (Fin 0) = Inr (pts ! 0)"
  using assms by (intro getPoint_on_knot) simp_all

lemma getPoint_last:
  assumes "0 < length pts" "list_all finite_point pts"
  shows "getPoint pts (Fin 1) = Inr (pts ! (length pts - 1))"
proof -
  have "(real (length pts) - 1) * 1 = real (length pts - 1)"
    using assms(1) by (cases "length pts") simp_all
  with assms show ?thesis
    by (intro getPoint_on_knot) (simp_all del: of_nat_diff)
qed

lemma getPoints_closed:
  assumes "0 < length pts" "0 < n"
  shows "getPoints pts (Fin (real n)) =
           Some (Inr (map (\<lambda>d. projr (getPoint pts (Fin (real d / real n)))) [0..<Suc n]))"
  unfolding getPoints_def
proof (rule js_for_push)
  show "\<And>j. j < Suc n \<Longrightarrow> jle (Fin (real j)) (Fin (real n))" by simp
  show "\<not> jle (Fin (real (Suc n))) (Fin (real n))" by simp
  fix j acc assume j: "j < Suc n"
  have q: "Fin (real j) / Fin (real n) = Fin (real j / real n)"
    using assms(2) by simp
  have "0 \<le> real j / real n" "real j / real n \<le> 1"
    using j assms(2) by simp_all
  from getPoint_returns [OF assms(1) this]
  obtain pt where "getPoint pts (Fin (real j / real n)) = Inr pt" ..
  then show "(case getPoint pts (Fin (real j) / Fin (real n)) of
                Inl e \<Rightarrow> Some (Inl e) | Inr pt \<Rightarrow> Some (Inr (acc @ [pt])))
             = Some (Inr (acc @ [projr (getPoint pts (Fin (real j / real n)))]))"
    unfolding q by simp
qed

lemma spline_two_points:
  "evaluateSplineCurve two_points (Fin (real (2::nat)))
     = Some (Inr [Vector2 (Fin 4) (Fin 0), Vector2 (Fin 8) (Fin 72), Vector2 (Fin 12) (Fin 144)])"
proof -
  have "0 < length two_points" by (simp add: two_points_def)
  from getPoints_closed [OF this, of 2]
  show ?thesis
    by (simp add: evaluateSplineCurve_def upt_conv_Cons getPoint_def Let_def
      two_points_def array_get_def CatmullRom_def minus_jsnum_def jgt_def del: upt_Suc)
qed

text \<open>
  Claim C8. For every sequence of at least two control points (with finite coordinates)
  and every whole resolution of at least 1, \<open>evaluateSplineCurve\<close> returns exactly
  \<open>resolution + 1\<close> points; the first is the first control point and the last is the
  last control point.
\<close>

theorem spline_interpolates_endpoints:
  assumes "2 \<le> length cps" and "1 \<le> n" and "list_all finite_point cps"
  shows "\<exists>out. evaluateSplineCurve cps (Fin (real n)) = Some (Inr out)
           \<and> length out = n + 1 \<and> hd out = hd cps \<and> last out = last cps"
proof -
  have L: "0 < length cps" using assms(1) by (cases cps) simp_all
  have N: "0 < n" using assms(2) by simp
  define out where "out = map (\<lambda>d. projr (getPoint cps (Fin (real d / real n)))) [0..<Suc n]"
  have ev: "evaluateSplineCurve cps (Fin (real n)) = Some (Inr out)"
    unfolding evaluateSplineCurve_def out_def by (rule getPoints_closed [OF L N])
  have len: "length out = n + 1" by (simp add: out_def)
  have ne: "cps \<noteq> []" using L by auto
  have "hd out = projr (getPoint cps (Fin (real 0 / real n)))"
    unfolding out_def by (simp add: upt_conv_Cons del: upt_Suc)
  also have "\<dots> = cps ! 0" using getPoint_first [OF L assms(3)] by simp
  also have "\<dots> = hd cps" using ne by (simp add: hd_conv_nth)
  finally have h: "hd out = hd cps" .
  have "last out = projr (getPoint cps (Fin (real n / real n)))"
    unfolding out_def by simp
  also have "real n / real n = 1" using N by simp
  also have "projr (getPoint cps (Fin 1)) = cps ! (length cps - 1)"
    using getPoint_last [OF L assms(3)] by simp
  also have "\<dots> = last cps" using ne by (simp add: last_conv_nth)
  finally have l: "last out = last cps" .
  from ev len h l show ?thesis by blast
qed

theorem spline_interpolates_endpoints_witness:
  "2 \<le> length two_points \<and> (1::nat) \<le> 2 \<and> list_all finite_point two_points
   \<and> (\<exists>out. evaluateSplineCurve two_points (Fin (real (2::nat))) = Some (Inr out)
          \<and> length out = 2 + 1
          \<and> hd out = Vector2 (Fin 4) (Fin 0) \<and> last out = Vector2 (Fin 12) (Fin 144))"
proof -
  have h: "2 \<le> length two_points" "(1::nat) \<le> 2" "list_all finite_point two_points"
    by (simp_all add: two_points_def finite_point_def)
  from spline_interpolates_endpoints [OF h] h show ?thesis
    by (simp add: two_points_def)
qed

section \<open>One profile for each rib, in index order\<close>

lemma and_then_Some:
  "and_then m f = Some (Inr y) \<longleftrightarrow> (\<exists>v. m = Some (Inr v) \<and> f v = Some (Inr y))"
  by (auto simp: and_then_def split: option.splits sum.splits)

lemma and_then_returns [simp]: "and_then (Some (Inr v)) f = f v"
  by (simp add: and_then_def)

lemma and_then_None [simp]: "and_then None f = None"
  by (simp add: and_then_def)

lemma rib_step_appends:
  assumes "rib_step img p m s i acc = Some (Inr acc')"
  shows "\<exists>rib. ribProfiles acc' = ribProfiles acc @ [rib] \<and> rp_index rib = i
           \<and> rp_ceilingProfile rib = None \<and> rp_ceilingRun rib = None"
  using assms
  by (cases "m = Both") (auto simp: rib_step_def Let_def and_then_Some)

lemma rib_step_both:
  assumes "rib_step img p Both s i acc = Some (Inr acc')"
  shows "\<exists>full. fullProfile_of img p s i = Some (Inr full)
           \<and> ceilingProfilesArr acc' = ceilingProfilesArr acc @ [ceilingSegment_of p full]"
  using assms
  by (auto simp: rib_step_def Let_def and_then_Some fullProfile_of_def ceilingSegment_of_def
      splitIndex_of_def)

lemma generateRibProfiles_eq:
  "generateRibProfiles img p m s =
     and_then (js_for (\<lambda>i. jlt (Fin (real i)) (count p)) (rib_step img (reordered p) m s) 0 no_ribs)
       (\<lambda>res. Some (Inr (reordered p, res)))"
  by (simp add: generateRibProfiles_def reordered_def no_ribs_def Let_def)

lemma generateRibProfiles_returns:
  "generateRibProfiles img p m s = Some (Inr (p', g)) \<longleftrightarrow>
     p' = reordered p
     \<and> js_for (\<lambda>i. jlt (Fin (real i)) (count p)) (rib_step img (reordered p) m s) 0 no_ribs
         = Some (Inr g)"
  unfolding generateRibProfiles_eq and_then_Some by auto

lemma ribs_loop_indices:
  assumes "js_for (\<lambda>i. jlt (Fin (real i)) (Fin (real n))) (rib_step img p m s) 0 no_ribs
             = Some (Inr g)"
  shows "map rp_index (ribProfiles g) = [0..<n]"
proof -
  define I where "I j (t :: Generated) \<longleftrightarrow> j \<le> n \<and> map rp_index (ribProfiles t) = [0..<j]" for j t
  have "\<exists>k. \<not> jlt (Fin (real k)) (Fin (real n)) \<and> I k g"
  proof (rule js_for_partial [OF assms])
    show "I 0 no_ribs" by (simp add: I_def no_ribs_def)
  next
    fix j t t'
    assume c: "jlt (Fin (real j)) (Fin (real n))" and i: "I j t"
      and b: "rib_step img p m s j t = Some (Inr t')"
    from rib_step_appends [OF b] obtain rib where
      "ribProfiles t' = ribProfiles t @ [rib]" "rp_index rib = j" by blast
    with c i show "I (Suc j) t'" by (simp add: I_def)
  qed
  then obtain k where "\<not> k < n" "k \<le> n" "map rp_index (ribProfiles g) = [0..<k]"
    by (auto simp: I_def)
  then show ?thesis by simp
qed

lemma round_whole:
  assumes "1 \<le> x"
  shows "\<exists>N. 1 \<le> N \<and> Math_round (Fin x) = Fin (real N)"
proof -
  define z where "z = \<lfloor>x + 1 / 2\<rfloor>"
  have z: "1 \<le> z" unfolding z_def using assms by linarith
  then have "1 \<le> nat z" by linarith
  moreover have "real_of_int z = real (nat z)" using z by simp
  ultimately show ?thesis
    by (intro exI [of _ "nat z"]) (simp add: z_def)
qed

lemma spline_returns:
  assumes "0 < length pts" "0 < d"
  shows "\<exists>out. evaluateSplineCurve pts (Fin (real d)) = Some (Inr out)"
  unfolding evaluateSplineCurve_def getPoints_closed [OF assms] by simp

lemma rib_step_returns:
  assumes cp: "controlPoints p = Fin (real c)" "1 \<le> c"
    and dr: "displayResolution p = Fin (real d)" "1 \<le> d"
    and both: "m = Both \<Longrightarrow> \<exists>h r. height p = Fin h \<and> ceilingRun p = Fin r \<and> 0 < h \<and> 0 \<le> r"
  shows "\<exists>acc'. rib_step img p m s i acc = Some (Inr acc')"
proof (cases "m = Both")
  case False
  have g: "generateControlPoints img p (Fin (real i)) s
           = Some (Inr (map (controlPoint img p (Fin (real i)) s (controlPoints p) (height p)) [0..<c]))"
    by (simp add: generateControlPoints_eq cp)
  have "0 < length (map (controlPoint img p (Fin (real i)) s (controlPoints p) (height p)) [0..<c])"
    using cp(2) by simp
  from spline_returns [OF this, of d] dr(2) obtain out where
    "evaluateSplineCurve (map (controlPoint img p (Fin (real i)) s (controlPoints p) (height p)) [0..<c])
       (Fin (real d)) = Some (Inr out)" by auto
  with False g show ?thesis by (simp add: rib_step_def dr(1))
next
  case True
  from both [OF True] obtain h r where
    h: "height p = Fin h" "ceilingRun p = Fin r" "0 < h" "0 \<le> r" by blast
  define q where "q = (h + r) / h"
  have q1: "1 \<le> q" using h(3,4) by (simp add: q_def field_simps)
  have ratio: "(height p + ceilingRun p) / height p = Fin q"
    using h by (simp add: q_def)
  have "1 \<le> real c * q" using cp(2) q1
    by (metis mult_mono of_nat_1 of_nat_le_iff mult_1 zero_le_one of_nat_0_le_iff)
  from round_whole [OF this] obtain N where
    N: "1 \<le> N" "Math_round (Fin (real c * q)) = Fin (real N)" by blast
  have "1 \<le> real d * q" using dr(2) q1
    by (metis mult_mono of_nat_1 of_nat_le_iff mult_1 zero_le_one of_nat_0_le_iff)
  from round_whole [OF this] obtain M where
    M: "1 \<le> M" "Math_round (Fin (real d * q)) = Fin (real M)" by blast
  define cps where "cps = map (controlPoint img p (Fin (real i)) s (Fin (real N))
                                 (height p + ceilingRun p)) [0..<N]"
  have g: "generateControlPointsLPath img p (Fin (real i)) (height p + ceilingRun p) s
             = Some (Inr cps)"
    unfolding generateControlPointsLPath_eq ratio cp(1) times_jsnum.simps N(2) cps_def
    by simp
  have "0 < length cps" using N(1) by (simp add: cps_def)
  from spline_returns [OF this, of M] M(1) obtain out where
    out: "evaluateSplineCurve cps (Fin (real M)) = Some (Inr out)" by auto
  have res: "Math_round (displayResolution p * ((height p + ceilingRun p) / height p)) = Fin (real M)"
    unfolding ratio dr(1) times_jsnum.simps M(2) ..
  show ?thesis
    unfolding rib_step_def Let_def using True by (simp add: g res out)
qed


lemma ribs_loop_returns:
  assumes cp: "controlPoints p = Fin (real c)" "1 \<le> c"
    and dr: "displayResolution p = Fin (real d)" "1 \<le> d"
    and both: "m = Both \<Longrightarrow> \<exists>h r. height p = Fin h \<and> ceilingRun p = Fin r \<and> 0 < h \<and> 0 \<le> r"
  shows "\<exists>g. js_for (\<lambda>i. jlt (Fin (real i)) (Fin (real n))) (rib_step img p m s) 0 no_ribs
               = Some (Inr g)"
proof -
  have "\<exists>g. js_for (\<lambda>i. jlt (Fin (real i)) (Fin (real n))) (rib_step img p m s) 0 no_ribs
               = Some (Inr g) \<and> True"
  proof (rule js_for_total [where N = n and I = "\<lambda>j t. True"])
    show "\<And>j. 0 \<le> j \<Longrightarrow> j < n \<Longrightarrow> jlt (Fin (real j)) (Fin (real n))" by simp
    show "\<not> jlt (Fin (real n)) (Fin (real n))" by simp
    show "\<And>j t. 0 \<le> j \<Longrightarrow> j < n \<Longrightarrow> True \<Longrightarrow> \<exists>t'. rib_step img p m s j t = Some (Inr t') \<and> True"
      using rib_step_returns [OF cp dr both] by simp
  qed simp_all
  then show ?thesis by simp
qed

text \<open>
  Claim C1, as stated, fails: with \<open>height = 0\<close> in mode \<open>both\<close> the number of
  control points of the L-path is \<open>Math.round (20 * (96 / 0))\<close>, which is
  \<open>Infinity\<close>; the loop of \<open>generateControlPointsLPath\<close> has no end and the call
  never returns a list of profiles.
\<close>

theorem rib_profiles_counterexample:
  "count (DEFAULT_PARAMS\<lparr>height := Fin 0\<rparr>) = Fin 40
   \<and> generateRibProfiles None (DEFAULT_PARAMS\<lparr>height := Fin 0\<rparr>) Both (Fin 1) = None"
proof -
  let ?p = "reordered (DEFAULT_PARAMS\<lparr>height := Fin 0\<rparr>)"
  have "generateControlPointsLPath None ?p (Fin (real 0)) (height ?p + ceilingRun ?p) (Fin 1) = None"
    by (simp add: generateControlPointsLPath_eq reordered_def DEFAULT_PARAMS_def)
  then have "rib_step None ?p Both (Fin 1) 0 no_ribs = None"
    by (simp add: rib_step_def Let_def)
  then have "js_for (\<lambda>i. jlt (Fin (real i)) (count (DEFAULT_PARAMS\<lparr>height := Fin 0\<rparr>)))
               (rib_step None ?p Both (Fin 1)) 0 no_ribs = None"
    by (subst js_for.simps) (simp add: DEFAULT_PARAMS_def)
  then show ?thesis
    by (simp add: generateRibProfiles_eq DEFAULT_PARAMS_def)
qed

text \<open>
  Claim C1, amended. For every parameter set whose \<open>count\<close> is a natural number,
  whenever \<open>generateRibProfiles\<close> returns, \<open>ribProfiles\<close> holds exactly \<open>count\<close>
  records and their \<open>index\<close> fields are \<open>0, 1, ..., count - 1\<close> in that order. It
  returns whenever \<open>count\<close> is at most 80, \<open>controlPoints\<close> is a whole number between
  1 and 100, \<open>displayResolution\<close> is a whole number between 1 and 500 and, in mode
  \<open>both\<close>, \<open>height\<close> is between 40 and 144 and \<open>ceilingRun\<close> between 24 and 144;
  the sliders of the application stay within these bounds.
\<close>

theorem rib_profiles_in_index_order:
  assumes "count p = Fin (real n)"
  shows "(\<forall>p' g. generateRibProfiles img p m s = Some (Inr (p', g))
            \<longrightarrow> length (ribProfiles g) = n \<and> map rp_index (ribProfiles g) = [0..<n])
       \<and> (n \<le> 80
           \<and> (\<exists>c d. controlPoints p = Fin (real c) \<and> 1 \<le> c \<and> c \<le> 100
                 \<and> displayResolution p = Fin (real d) \<and> 1 \<le> d \<and> d \<le> 500)
           \<and> (m = Both \<longrightarrow> (\<exists>h r. height p = Fin h \<and> 40 \<le> h \<and> h \<le> 144
                                  \<and> ceilingRun p = Fin r \<and> 24 \<le> r \<and> r \<le> 144))
          \<longrightarrow> (\<exists>p' g. generateRibProfiles img p m s = Some (Inr (p', g))))"
proof (intro conjI allI impI)
  fix p' g assume "generateRibProfiles img p m s = Some (Inr (p', g))"
  then have "js_for (\<lambda>i. jlt (Fin (real i)) (Fin (real n))) (rib_step img (reordered p) m s) 0 no_ribs
               = Some (Inr g)"
    by (simp add: generateRibProfiles_returns assms)
  then have ix: "map rp_index (ribProfiles g) = [0..<n]" by (rule ribs_loop_indices)
  then show "map rp_index (ribProfiles g) = [0..<n]" .
  from ix have "length (map rp_index (ribProfiles g)) = length [0..<n]" by simp
  then show "length (ribProfiles g) = n" by simp
next
  assume v: "n \<le> 80
           \<and> (\<exists>c d. controlPoints p = Fin (real c) \<and> 1 \<le> c \<and> c \<le> 100
                 \<and> displayResolution p = Fin (real d) \<and> 1 \<le> d \<and> d \<le> 500)
           \<and> (m = Both \<longrightarrow> (\<exists>h r. height p = Fin h \<and> 40 \<le> h \<and> h \<le> 144
                                  \<and> ceilingRun p = Fin r \<and> 24 \<le> r \<and> r \<le> 144))"
  then obtain c d where cd: "controlPoints (reordered p) = Fin (real c)" "1 \<le> c"
      "displayResolution (reordered p) = Fin (real d)" "1 \<le> d"
    by (auto simp: reordered_def)
  have both: "\<exists>h r. height (reordered p) = Fin h \<and> ceilingRun (reordered p) = Fin r \<and> 0 < h \<and> 0 \<le> r"
    if "m = Both"
  proof -
    from v that obtain h r where "height p = Fin h" "40 \<le> h" "ceilingRun p = Fin r" "24 \<le> r"
      by auto
    then show ?thesis by (simp add: reordered_def)
  qed
  from ribs_loop_returns [OF cd both, where n = n and img = img and s = s] obtain g where
    "js_for (\<lambda>i. jlt (Fin (real i)) (Fin (real n))) (rib_step img (reordered p) m s) 0 no_ribs
       = Some (Inr g)" by blast
  then have "generateRibProfiles img p m s = Some (Inr (reordered p, g))"
    by (simp add: generateRibProfiles_returns assms)
  then show "\<exists>p' g. generateRibProfiles img p m s = Some (Inr (p', g))" by blast
qed

theorem rib_profiles_in_index_order_witness:
  "count DEFAULT_PARAMS = Fin (real 40) \<and> (40::nat) \<le> 80
   \<and> controlPoints DEFAULT_PARAMS = Fin (real 20) \<and> (1::nat) \<le> 20 \<and> (20::nat) \<le> 100
   \<and> displayResolution DEFAULT_PARAMS = Fin (real 200) \<and> (1::nat) \<le> 200 \<and> (200::nat) \<le> 500
   \<and> height DEFAULT_PARAMS = Fin 144 \<and> (40::real) \<le> 144 \<and> (144::real) \<le> 144
   \<and> ceilingRun DEFAULT_PARAMS = Fin 96 \<and> (24::real) \<le> 96 \<and> (96::real) \<le> 144
   \<and> (\<exists>p' g. generateRibProfiles None DEFAULT_PARAMS Both (Fin 1) = Some (Inr (p', g))
         \<and> length (ribProfiles g) = 40 \<and> map rp_index (ribProfiles g) = [0..<40])"
proof -
  have n: "count DEFAULT_PARAMS = Fin (real 40)" by (simp add: DEFAULT_PARAMS_def)
  have v: "40 \<le> (80::nat)
           \<and> (\<exists>c d. controlPoints DEFAULT_PARAMS = Fin (real c) \<and> 1 \<le> c \<and> c \<le> 100
                 \<and> displayResolution DEFAULT_PARAMS = Fin (real d) \<and> 1 \<le> d \<and> d \<le> 500)
           \<and> (Both = Both \<longrightarrow> (\<exists>h r. height DEFAULT_PARAMS = Fin h \<and> 40 \<le> h \<and> h \<le> 144
                                  \<and> ceilingRun DEFAULT_PARAMS = Fin r \<and> 24 \<le> r \<and> r \<le> 144))"
  proof (intro conjI impI)
    show "\<exists>c d. controlPoints DEFAULT_PARAMS = Fin (real c) \<and> 1 \<le> c \<and> c \<le> 100
                 \<and> displayResolution DEFAULT_PARAMS = Fin (real d) \<and> 1 \<le> d \<and> d \<le> 500"
      by (intro exI [of _ 20] exI [of _ 200]) (simp add: DEFAULT_PARAMS_def)
    show "\<exists>h r. height DEFAULT_PARAMS = Fin h \<and> 40 \<le> h \<and> h \<le> 144
                                  \<and> ceilingRun DEFAULT_PARAMS = Fin r \<and> 24 \<le> r \<and> r \<le> 144"
      by (simp add: DEFAULT_PARAMS_def)
  qed simp
  note T = rib_profiles_in_index_order [OF n, of None Both "Fin 1"]
  from T [THEN conjunct2, rule_format, OF v] obtain p' g where
    r: "generateRibProfiles None DEFAULT_PARAMS Both (Fin 1) = Some (Inr (p', g))" by blast
  from T [THEN conjunct1, rule_format, OF r] r
  have "\<exists>p' g. generateRibProfiles None DEFAULT_PARAMS Both (Fin 1) = Some (Inr (p', g))
         \<and> length (ribProfiles g) = 40 \<and> map rp_index (ribProfiles g) = [0..<40]"
    by blast
  then show ?thesis by (simp add: DEFAULT_PARAMS_def)
qed

section \<open>Profile generation reorders the depths\<close>

lemma Math_min_commute: "Math_min a b = Math_min b a"
  by (cases a; cases b) auto

lemma Math_max_commute: "Math_max a b = Math_max b a"
  by (cases a; cases b) auto

lemma Math_min_min_max: "Math_min (Math_min a b) (Math_max a b) = Math_min a b"
  by (cases a; cases b) auto

lemma Math_max_min_max: "Math_max (Math_min a b) (Math_max a b) = Math_max a b"
  by (cases a; cases b) auto

lemma Math_min_Fin: "Math_min (Fin a) (Fin b) = Fin (min a b)"
  by (simp add: min_def)

lemma Math_min_le_max: "a \<noteq> NaN \<Longrightarrow> b \<noteq> NaN \<Longrightarrow> jle (Math_min a b) (Math_max a b)"
  by (cases a; cases b) auto

lemma stripe_points:
  "generateControlPoints (Some stripe_image) small_params (Fin 0) (Fin 1) =
      Some (Inr [Vector2 (Fin 4) (Fin 0), Vector2 (Fin 4) (Fin 100)])"
  by (simp add: generateControlPoints_eq small_params_def DEFAULT_PARAMS_def upt_conv_Cons
      controlPoint_def sample_Some [of 1] stripe_image_def data_at_def array_get_def
      Let_def jgt_def minus_jsnum_def frac_def del: upt_Suc)

lemma stripe_spline:
  "evaluateSplineCurve [Vector2 (Fin 4) (Fin 0), Vector2 (Fin 4) (Fin 100)] (Fin 2) =
    Some (Inr [Vector2 (Fin 4) (Fin 0), Vector2 (Fin 4) (Fin 50), Vector2 (Fin 4) (Fin 100)])"
proof -
  have "Fin 2 = Fin (real (2::nat))" by simp
  show ?thesis
    unfolding evaluateSplineCurve_def \<open>Fin 2 = Fin (real (2::nat))\<close>
    apply (subst getPoints_closed)
      apply simp
     apply simp
    apply (simp add: upt_conv_Cons getPoint_def Let_def
        array_get_def CatmullRom_def minus_jsnum_def jgt_def del: upt_Suc)
    done
qed

lemma stripe_rib_step:
  "rib_step (Some stripe_image) small_params Wall (Fin 1) 0 no_ribs = Some (Inr stripe_generated)"
proof -
  have p: "height small_params = Fin 100"
    "displayResolution small_params = Fin 2" "thickness small_params = Fin 0.5"
    by (simp_all add: small_params_def DEFAULT_PARAMS_def)
  show ?thesis
    unfolding rib_step_def Let_def p
    by (simp add: stripe_points stripe_spline no_ribs_def stripe_generated_def)
qed

lemma stripe_generate:
  "generateRibProfiles (Some stripe_image) swapped_small Wall (Fin 1)
     = Some (Inr (small_params, stripe_generated))"
proof -
  have r: "reordered swapped_small = small_params"
    by (simp add: reordered_def swapped_small_def small_params_def DEFAULT_PARAMS_def)
  have c: "count swapped_small = Fin 1"
    by (simp add: swapped_small_def small_params_def)
  show ?thesis
    unfolding generateRibProfiles_eq r c
    apply (subst js_for.simps)
    apply (simp add: stripe_rib_step)
    apply (subst js_for.simps)
    apply simp
    done
qed

text \<open>
  Claim C3. For every parameter set, installation mode and image scale,
  \<open>generateRibProfiles\<close> on the parameters with \<open>minDepth\<close> and \<open>maxDepth\<close>
  exchanged has the same outcome (the same profiles, the same parameter object left
  behind) as on the parameters themselves, and the same as on the parameters with the
  depths already in order; in particular \<open>minDepth = 12, maxDepth = 4\<close> generates what
  \<open>minDepth = 4, maxDepth = 12\<close> generates. Whenever the call returns, the parameter
  object it leaves behind holds \<open>Math.min\<close> and \<open>Math.max\<close> of the two depths, the
  returned arrays are what the loop over the ribs builds from that object, in it
  \<open>minDepth \<le> maxDepth\<close> unless a depth is \<open>NaN\<close>, and for finite depths the two
  fields are the smaller and the larger one. The call returns, with one profile for each
  rib, whenever \<open>count\<close> is a natural number of at most 80, \<open>controlPoints\<close> is a
  whole number between 1 and 100, \<open>displayResolution\<close> is a whole number between 1 and
  500 and, in mode \<open>both\<close>, \<open>height\<close> is between 40 and 144 and \<open>ceilingRun\<close>
  between 24 and 144; the sliders of the application stay within these bounds.
\<close>

theorem depths_are_reordered_first:
  "generateRibProfiles img (p\<lparr>minDepth := maxDepth p, maxDepth := minDepth p\<rparr>) m s
     = generateRibProfiles img p m s
   \<and> generateRibProfiles img (p\<lparr>minDepth := Math_min (minDepth p) (maxDepth p),
                                 maxDepth := Math_max (minDepth p) (maxDepth p)\<rparr>) m s
     = generateRibProfiles img p m s
   \<and> generateRibProfiles img (p\<lparr>minDepth := Fin 12, maxDepth := Fin 4\<rparr>) m s
     = generateRibProfiles img (p\<lparr>minDepth := Fin 4, maxDepth := Fin 12\<rparr>) m s
   \<and> (\<forall>p' g.
        generateRibProfiles img p m s = Some (Inr (p', g))
        \<longrightarrow> p' = p\<lparr>minDepth := Math_min (minDepth p) (maxDepth p),
                     maxDepth := Math_max (minDepth p) (maxDepth p)\<rparr>
            \<and> js_for (\<lambda>i. jlt (Fin (real i)) (count p)) (rib_step img p' m s) 0 no_ribs
                = Some (Inr g)
            \<and> (minDepth p \<noteq> NaN \<and> maxDepth p \<noteq> NaN \<longrightarrow> jle (minDepth p') (maxDepth p'))
            \<and> (\<forall>a b. minDepth p = Fin a \<and> maxDepth p = Fin b
                  \<longrightarrow> minDepth p' = Fin (min a b) \<and> maxDepth p' = Fin (max a b)))
   \<and> (\<forall>n.
        count p = Fin (real n) \<and> n \<le> 80
        \<and> (\<exists>c d. controlPoints p = Fin (real c) \<and> 1 \<le> c \<and> c \<le> 100
              \<and> displayResolution p = Fin (real d) \<and> 1 \<le> d \<and> d \<le> 500)
        \<and> (m = Both \<longrightarrow> (\<exists>h r. height p = Fin h \<and> 40 \<le> h \<and> h \<le> 144
                               \<and> ceilingRun p = Fin r \<and> 24 \<le> r \<and> r \<le> 144))
        \<longrightarrow> (\<exists>g. generateRibProfiles img p m s = Some (Inr (reordered p, g))
                \<and> length (ribProfiles g) = n))"
proof (intro conjI allI impI)
  show "generateRibProfiles img (p\<lparr>minDepth := maxDepth p, maxDepth := minDepth p\<rparr>) m s
     = generateRibProfiles img p m s"
    by (simp add: generateRibProfiles_def Let_def Math_min_commute [of "maxDepth p"]
        Math_max_commute [of "maxDepth p"])
  show "generateRibProfiles img (p\<lparr>minDepth := Math_min (minDepth p) (maxDepth p),
                                 maxDepth := Math_max (minDepth p) (maxDepth p)\<rparr>) m s
     = generateRibProfiles img p m s"
    by (simp add: generateRibProfiles_def Let_def Math_min_min_max Math_max_min_max)
  show "generateRibProfiles img (p\<lparr>minDepth := Fin 12, maxDepth := Fin 4\<rparr>) m s
     = generateRibProfiles img (p\<lparr>minDepth := Fin 4, maxDepth := Fin 12\<rparr>) m s"
    by (simp add: generateRibProfiles_def Let_def)
next
  fix p' g
  assume h: "generateRibProfiles img p m s = Some (Inr (p', g))"
  then have e: "p' = reordered p"
    and l: "js_for (\<lambda>i. jlt (Fin (real i)) (count p)) (rib_step img (reordered p) m s) 0 no_ribs
              = Some (Inr g)"
    by (simp_all add: generateRibProfiles_returns)
  from e show "p' = p\<lparr>minDepth := Math_min (minDepth p) (maxDepth p),
                     maxDepth := Math_max (minDepth p) (maxDepth p)\<rparr>"
    by (simp add: reordered_def)
  from e l show "js_for (\<lambda>i. jlt (Fin (real i)) (count p)) (rib_step img p' m s) 0 no_ribs
                = Some (Inr g)" by simp
  show "jle (minDepth p') (maxDepth p')" if "minDepth p \<noteq> NaN \<and> maxDepth p \<noteq> NaN"
    using that unfolding e by (simp add: reordered_def Math_min_le_max)
  show "minDepth p' = Fin (min a b)" if "minDepth p = Fin a \<and> maxDepth p = Fin b" for a b
    using that unfolding e by (simp add: reordered_def Math_min_Fin)
  show "maxDepth p' = Fin (max a b)" if "minDepth p = Fin a \<and> maxDepth p = Fin b" for a b
    using that unfolding e by (simp add: reordered_def Math_max_Fin)
next
  fix n
  assume v: "count p = Fin (real n) \<and> n \<le> 80
        \<and> (\<exists>c d. controlPoints p = Fin (real c) \<and> 1 \<le> c \<and> c \<le> 100
              \<and> displayResolution p = Fin (real d) \<and> 1 \<le> d \<and> d \<le> 500)
        \<and> (m = Both \<longrightarrow> (\<exists>h r. height p = Fin h \<and> 40 \<le> h \<and> h \<le> 144
                               \<and> ceilingRun p = Fin r \<and> 24 \<le> r \<and> r \<le> 144))"
  then have n: "count p = Fin (real n)" by simp
  from v obtain c d where cd: "controlPoints (reordered p) = Fin (real c)" "1 \<le> c"
      "displayResolution (reordered p) = Fin (real d)" "1 \<le> d"
    by (auto simp: reordered_def)
  have both: "\<exists>h r. height (reordered p) = Fin h \<and> ceilingRun (reordered p) = Fin r \<and> 0 < h \<and> 0 \<le> r"
    if "m = Both"
  proof -
    from v that obtain h r where "height p = Fin h" "40 \<le> h" "ceilingRun p = Fin r" "24 \<le> r"
      by auto
    then show ?thesis by (simp add: reordered_def)
  qed
  from ribs_loop_returns [OF cd both, where n = n and img = img and s = s] obtain g where
    l: "js_for (\<lambda>i. jlt (Fin (real i)) (Fin (real n))) (rib_step img (reordered p) m s) 0 no_ribs
       = Some (Inr g)" by blast
  then have "map rp_index (ribProfiles g) = [0..<n]" by (rule ribs_loop_indices)
  then have "length (map rp_index (ribProfiles g)) = length [0..<n]" by simp
  then have len: "length (ribProfiles g) = n" by simp
  from l have "generateRibProfiles img p m s = Some (Inr (reordered p, g))"
    by (simp add: generateRibProfiles_returns n)
  with len show "\<exists>g. generateRibProfiles img p m s = Some (Inr (reordered p, g))
                \<and> length (ribProfiles g) = n" by blast
qed

theorem depths_are_reordered_first_witness:
  "minDepth swapped_small = Fin 12 \<and> maxDepth swapped_small = Fin 4
   \<and> count swapped_small = Fin (real 1) \<and> (1::nat) \<le> 80
   \<and> controlPoints swapped_small = Fin (real 2) \<and> (1::nat) \<le> 2 \<and> (2::nat) \<le> 100
   \<and> displayResolution swapped_small = Fin (real 2) \<and> (2::nat) \<le> 500
   \<and> generateRibProfiles (Some stripe_image) swapped_small Wall (Fin 1)
       = Some (Inr (small_params, stripe_generated))
   \<and> generateRibProfiles (Some stripe_image) (swapped_small\<lparr>minDepth := Fin 4, maxDepth := Fin 12\<rparr>)
        Wall (Fin 1)
       = Some (Inr (small_params, stripe_generated))
   \<and> minDepth small_params = Fin (min 12 4) \<and> maxDepth small_params = Fin (max 12 4)
   \<and> jle (minDepth small_params) (maxDepth small_params)
   \<and> js_for (\<lambda>i. jlt (Fin (real i)) (count swapped_small))
        (rib_step (Some stripe_image) small_params Wall (Fin 1)) 0 no_ribs
       = Some (Inr stripe_generated)
   \<and> length (ribProfiles stripe_generated) = 1
   \<and> map vx (rp_profile (hd (ribProfiles stripe_generated))) = [Fin 4, Fin 4, Fin 4]"
proof -
  have g: "generateRibProfiles (Some stripe_image) swapped_small Wall (Fin 1)
          = Some (Inr (small_params, stripe_generated))"
    by (rule stripe_generate)
  have params: "minDepth swapped_small = Fin 12" "maxDepth swapped_small = Fin 4"
    "count swapped_small = Fin (real 1)" "controlPoints swapped_small = Fin (real 2)"
    "displayResolution swapped_small = Fin (real 2)"
    by (simp_all add: swapped_small_def small_params_def DEFAULT_PARAMS_def)
  have nums: "(1::nat) \<le> 80" "(1::nat) \<le> 2" "(2::nat) \<le> 100" "(2::nat) \<le> 500" by simp_all
  have v: "count swapped_small = Fin (real 1) \<and> 1 \<le> (80::nat)
        \<and> (\<exists>c d. controlPoints swapped_small = Fin (real c) \<and> 1 \<le> c \<and> c \<le> 100
              \<and> displayResolution swapped_small = Fin (real d) \<and> 1 \<le> d \<and> d \<le> 500)
        \<and> (Wall = Both \<longrightarrow> (\<exists>h r. height swapped_small = Fin h \<and> 40 \<le> h \<and> h \<le> 144
                               \<and> ceilingRun swapped_small = Fin r \<and> 24 \<le> r \<and> r \<le> 144))"
  proof (intro conjI impI)
    show "\<exists>c d. controlPoints swapped_small = Fin (real c) \<and> 1 \<le> c \<and> c \<le> 100
              \<and> displayResolution swapped_small = Fin (real d) \<and> 1 \<le> d \<and> d \<le> 500"
      by (intro exI [of _ 2]) (simp add: swapped_small_def small_params_def)
  qed (simp_all add: swapped_small_def small_params_def)
  note T = depths_are_reordered_first [where p = swapped_small and img = "Some stripe_image"
      and m = Wall and s = "Fin 1"]
  note S = T [THEN conjunct2, THEN conjunct2, THEN conjunct1]
  note A = T [THEN conjunct2, THEN conjunct2, THEN conjunct2, THEN conjunct1, rule_format, OF g]
  note B = T [THEN conjunct2, THEN conjunct2, THEN conjunct2, THEN conjunct2, rule_format, OF v]
  have nn: "minDepth swapped_small \<noteq> NaN \<and> maxDepth swapped_small \<noteq> NaN"
    and ff: "minDepth swapped_small = Fin 12 \<and> maxDepth swapped_small = Fin 4"
    by (simp_all add: params)
  from A have a2: "jle (minDepth small_params) (maxDepth small_params)"
    using nn by blast
  from A have a3: "js_for (\<lambda>i. jlt (Fin (real i)) (count swapped_small))
        (rib_step (Some stripe_image) small_params Wall (Fin 1)) 0 no_ribs
       = Some (Inr stripe_generated)"
    by blast
  from A have "\<forall>a b. minDepth swapped_small = Fin a \<and> maxDepth swapped_small = Fin b
                  \<longrightarrow> minDepth small_params = Fin (min a b) \<and> maxDepth small_params = Fin (max a b)"
    by blast
  from this [rule_format, OF ff]
  have a1: "minDepth small_params = Fin (min 12 4)" "maxDepth small_params = Fin (max 12 4)"
    by blast+
  have "swapped_small\<lparr>minDepth := Fin 12, maxDepth := Fin 4\<rparr> = swapped_small"
    by (simp add: swapped_small_def)
  with S g have s: "generateRibProfiles (Some stripe_image)
        (swapped_small\<lparr>minDepth := Fin 4, maxDepth := Fin 12\<rparr>) Wall (Fin 1)
       = Some (Inr (small_params, stripe_generated))"
    by simp
  from B g have len: "length (ribProfiles stripe_generated) = 1" by auto
  have shape: "map vx (rp_profile (hd (ribProfiles stripe_generated))) = [Fin 4, Fin 4, Fin 4]"
    by (simp add: stripe_generated_def)
  show ?thesis
    by (intro conjI params nums g s a1 a2 a3 len shape)
qed

section \<open>Ceiling profiles\<close>

lemma small_LPath:
  "generateControlPointsLPath None small_params (Fin 0) (Fin 200) (Fin 1) =
      Some (Inr [Vector2 (Fin 8) (Fin 0), Vector2 (Fin 8) (Fin (200 / 3)),
                 Vector2 (Fin 8) (Fin (400 / 3)), Vector2 (Fin 8) (Fin 200)])"
  by (simp add: generateControlPointsLPath_eq small_params_def DEFAULT_PARAMS_def upt_conv_Cons
      controlPoint_def waveFunction_def Let_def Math_PI_def minus_jsnum_def del: upt_Suc)

lemma small_spline:
  "evaluateSplineCurve [Vector2 (Fin 8) (Fin 0), Vector2 (Fin 8) (Fin (200 / 3)),
             Vector2 (Fin 8) (Fin (400 / 3)), Vector2 (Fin 8) (Fin 200)] (Fin 4) =
    Some (Inr [Vector2 (Fin 8) (Fin 0), Vector2 (Fin 8) (Fin (775 / 16)),
           Vector2 (Fin 8) (Fin 100), Vector2 (Fin 8) (Fin (2425 / 16)),
           Vector2 (Fin 8) (Fin 200)])"
proof -
  have "Fin 4 = Fin (real (4::nat))" by simp
  show ?thesis
    unfolding evaluateSplineCurve_def \<open>Fin 4 = Fin (real (4::nat))\<close>
    apply (subst getPoints_closed)
      apply simp
     apply simp
    apply (simp add: upt_conv_Cons getPoint_def Let_def
        array_get_def CatmullRom_def minus_jsnum_def jgt_def del: upt_Suc)
    done
qed

lemma small_rib_step:
  "rib_step None small_params Both (Fin 1) 0 no_ribs = Some (Inr small_generated)"
proof -
  have p: "height small_params = Fin 100" "ceilingRun small_params = Fin 100"
    "displayResolution small_params = Fin 2" "thickness small_params = Fin 0.5"
    by (simp_all add: small_params_def DEFAULT_PARAMS_def)
  show ?thesis
    unfolding rib_step_def Let_def p
    by (simp add: small_LPath small_spline js_slice_def trunc_def minus_jsnum_def no_ribs_def
        small_generated_def)
qed

lemma small_generate:
  "generateRibProfiles None small_params Both (Fin 1) = Some (Inr (small_params, small_generated))"
proof -
  have r: "reordered small_params = small_params"
    by (simp add: reordered_def small_params_def DEFAULT_PARAMS_def)
  have c: "count small_params = Fin 1"
    by (simp add: small_params_def)
  show ?thesis
    unfolding generateRibProfiles_eq r c
    apply (subst js_for.simps)
    apply (simp add: small_rib_step)
    apply (subst js_for.simps)
    apply simp
    done
qed

text \<open>
  Claim C2, as stated, fails: the records that \<open>generateRibProfiles\<close> returns in mode
  \<open>both\<close> never carry a \<open>ceilingProfile\<close> or a \<open>ceilingRun\<close> field. For the small
  corner installation the one record has neither, and the ceiling segment is in the array
  \<open>ceilingProfilesArr\<close> (its positions start at 51.5625, one sample past the corner).
\<close>

theorem ceiling_fields_counterexample:
  "generateRibProfiles None small_params Both (Fin 1) = Some (Inr (small_params, small_generated))
   \<and> map rp_ceilingProfile (ribProfiles small_generated) = [None]
   \<and> map rp_ceilingRun (ribProfiles small_generated) = [None]"
  by (simp add: small_generate) (simp add: small_generated_def)

lemma ribs_loop_ceilings:
  assumes "js_for (\<lambda>i. jlt (Fin (real i)) (Fin (real n))) (rib_step img p Both s) 0 no_ribs
             = Some (Inr g)"
  shows "list_all (\<lambda>rib. rp_ceilingProfile rib = None \<and> rp_ceilingRun rib = None) (ribProfiles g)
       \<and> length (ceilingProfilesArr g) = n
       \<and> (\<forall>i<n. \<exists>full. fullProfile_of img p s i = Some (Inr full)
                      \<and> ceilingProfilesArr g ! i = ceilingSegment_of p full)"
proof -
  define I where "I j (t :: Generated) \<longleftrightarrow>
      j \<le> n
    \<and> list_all (\<lambda>rib. rp_ceilingProfile rib = None \<and> rp_ceilingRun rib = None) (ribProfiles t)
    \<and> length (ceilingProfilesArr t) = j
    \<and> (\<forall>i<j. \<exists>full. fullProfile_of img p s i = Some (Inr full)
                    \<and> ceilingProfilesArr t ! i = ceilingSegment_of p full)" for j t
  have "\<exists>k. \<not> jlt (Fin (real k)) (Fin (real n)) \<and> I k g"
  proof (rule js_for_partial [OF assms])
    show "I 0 no_ribs" by (simp add: I_def no_ribs_def)
  next
    fix j t t'
    assume c: "jlt (Fin (real j)) (Fin (real n))" and i: "I j t"
      and b: "rib_step img p Both s j t = Some (Inr t')"
    from rib_step_appends [OF b] obtain rib where
      rib: "ribProfiles t' = ribProfiles t @ [rib]"
        "rp_ceilingProfile rib = None" "rp_ceilingRun rib = None" by blast
    from rib_step_both [OF b] obtain full where
      full: "fullProfile_of img p s j = Some (Inr full)"
        "ceilingProfilesArr t' = ceilingProfilesArr t @ [ceilingSegment_of p full]" by blast
    have len: "length (ceilingProfilesArr t) = j" using i by (simp add: I_def)
    have "\<exists>f. fullProfile_of img p s k = Some (Inr f)
              \<and> ceilingProfilesArr t' ! k = ceilingSegment_of p f" if "k < Suc j" for k
    proof (cases "k = j")
      case True
      with full len show ?thesis by (simp add: nth_append)
    next
      case False
      with that have "k < j" by simp
      with i full(2) len show ?thesis by (simp add: I_def nth_append)
    qed
    with c i rib full len show "I (Suc j) t'" by (simp add: I_def)
  qed
  then obtain k where k: "\<not> k < n" "I k g" by auto
  then have "k = n" by (simp add: I_def)
  with k(2) show ?thesis by (simp add: I_def)
qed

text \<open>
  Claim C2, amended. When \<open>installationMode = both\<close> and \<open>generateRibProfiles\<close>
  returns, no returned record has a \<open>ceilingProfile\<close> or \<open>ceilingRun\<close> field.
  The ceiling profiles are returned in the parallel array \<open>ceilingProfilesArr\<close>, one
  for each rib in rib order: entry \<open>i\<close> is the part of the dense L-path profile of rib
  \<open>i\<close> from the split index on, with \<open>height\<close> subtracted from every position.
\<close>

theorem ceilings_in_parallel_array:
  assumes "generateRibProfiles img p Both s = Some (Inr (p', g))" and "count p = Fin (real n)"
  shows "list_all (\<lambda>rib. rp_ceilingProfile rib = None \<and> rp_ceilingRun rib = None) (ribProfiles g)
       \<and> length (ribProfiles g) = n
       \<and> length (ceilingProfilesArr g) = n
       \<and> (\<forall>i<n. \<exists>full. fullProfile_of img p' s i = Some (Inr full)
                      \<and> ceilingProfilesArr g ! i = ceilingSegment_of p' full)"
proof -
  from assms have p': "p' = reordered p"
    and loop: "js_for (\<lambda>i. jlt (Fin (real i)) (Fin (real n))) (rib_step img p' Both s) 0 no_ribs
                 = Some (Inr g)"
    by (simp_all add: generateRibProfiles_returns)
  from ribs_loop_indices [OF loop] have "length (map rp_index (ribProfiles g)) = length [0..<n]"
    by simp
  then have "length (ribProfiles g) = n" by simp
  with ribs_loop_ceilings [OF loop] show ?thesis by simp
qed

theorem ceilings_in_parallel_array_witness:
  "generateRibProfiles None small_params Both (Fin 1) = Some (Inr (small_params, small_generated))
   \<and> count small_params = Fin (real 1)
   \<and> list_all (\<lambda>rib. rp_ceilingProfile rib = None \<and> rp_ceilingRun rib = None)
       (ribProfiles small_generated)
   \<and> length (ceilingProfilesArr small_generated) = 1
   \<and> (\<exists>full. fullProfile_of None small_params (Fin 1) 0 = Some (Inr full)
          \<and> ceilingProfilesArr small_generated ! 0 = ceilingSegment_of small_params full)"
proof -
  have c: "count small_params = Fin (real 1)"
    by (simp add: small_params_def)
  from ceilings_in_parallel_array [OF small_generate c] small_generate c
  show ?thesis by simp
qed

section \<open>DXF export of degenerate profiles\<close>

lemma forEach_point_eq:
  "forEach_point offsetX pts dxf = dxf @ concat (map (vertex_record offsetX) pts)"
  by (induction pts arbitrary: dxf) (simp_all add: vertex_record_def)

lemma array_get_first: "xs \<noteq> [] \<Longrightarrow> array_get xs (Fin 0) = Some (hd xs)"
  by (cases xs) (simp_all add: array_get_def)

lemma array_get_last:
  "xs \<noteq> [] \<Longrightarrow> array_get xs (Fin (real (length xs)) - Fin 1) = Some (last xs)"
proof -
  assume ne: "xs \<noteq> []"
  then have "real (length xs) - 1 = real (length xs - 1)"
    by (cases xs) simp_all
  then have "Fin (real (length xs)) - Fin 1 = Fin (real (length xs - 1))"
    by (simp add: minus_jsnum_def del: of_nat_diff)
  moreover have "length xs - 1 < length xs" using ne by (cases xs) simp_all
  ultimately show ?thesis using ne
    by (simp add: array_get_nat last_conv_nth del: of_nat_diff)
qed

lemma array_get_empty: "array_get [] k = None"
  by (simp add: array_get_def split: jsnum.splits)

lemma forEach_rib_step:
  assumes "rp_profile rib \<noteq> []"
  shows "forEach_rib h sp (rib # rest) i dxf
           = forEach_rib h sp rest (Suc i) (dxf @ rib_entities h sp i rib)"
  using assms
  by (simp add: Let_def array_get_first array_get_last forEach_point_eq rib_entities_def
      del: toFixed.simps)

lemma forEach_rib_empty_profile:
  assumes "rp_profile rib = []"
  shows "forEach_rib h sp (rib # rest) i dxf = Inl TypeError"
  using assms by (simp add: Let_def array_get_empty)

lemma forEach_rib_returns:
  assumes "\<forall>rib\<in>set ribs. rp_profile rib \<noteq> []"
  shows "forEach_rib h sp ribs i dxf
           = Inr (dxf @ concat (map (\<lambda>(j, rib). rib_entities h sp j rib) (enumerate i ribs)))"
  using assms
proof (induction ribs arbitrary: i dxf)
  case Nil
  then show ?case by simp
next
  case (Cons rib rest)
  then have "rp_profile rib \<noteq> []" by simp
  from forEach_rib_step [OF this] Cons show ?case by simp
qed

lemma forEach_rib_throws:
  assumes "\<exists>rib\<in>set ribs. rp_profile rib = []"
  shows "forEach_rib h sp ribs i dxf = Inl TypeError"
  using assms
proof (induction ribs arbitrary: i dxf)
  case Nil
  then show ?case by simp
next
  case (Cons rib rest)
  show ?case
  proof (cases "rp_profile rib = []")
    case True
    then show ?thesis by (rule forEach_rib_empty_profile)
  next
    case False
    with Cons.prems have "\<exists>r\<in>set rest. rp_profile r = []" by auto
    from Cons.IH [OF this] forEach_rib_step [OF False] show ?thesis by simp
  qed
qed

lemma digits_small: "n < 10 \<Longrightarrow> digits n = [''0123456789'' ! n]"
  by (subst digits.simps) simp

lemma digits_large: "10 \<le> n \<Longrightarrow> digits n = digits (n div 10) @ [''0123456789'' ! (n mod 10)]"
  by (subst digits.simps) simp

lemma replicate_numeral: "replicate (numeral k) x = x # replicate (pred_numeral k) x"
  by (simp add: numeral_eq_Suc)

lemma toFixed_examples:
  "toFixed 6 (Fin 0) = ''0.000000''"
  "toFixed 6 (Fin 8) = ''8.000000''"
  "toFixed 6 (Fin 144) = ''144.000000''"
  "toFixed 6 (Fin (- 1.5)) = ''-1.500000''"
  "toFixed 1 (Fin 22.75) = ''22.8''"
  by (simp_all add: Let_def digits_small digits_large replicate_numeral)

lemma one_point_entities:
  "rib_entities (Fin 144) (Fin 12 * Fin 1.2) 0 (rib_with [Vector2 (Fin 8) (Fin 0)]) =
       ''0\<newline>LINE\<newline>8\<newline>LINES\<newline>10\<newline>0.000000\<newline>20\<newline>0.0\<newline>30\<newline>0.0\<newline>11\<newline>8.000000\<newline>21\<newline>0.000000\<newline>31\<newline>0.0\<newline>''
       @ ''0\<newline>POLYLINE\<newline>8\<newline>CURVES\<newline>66\<newline>1\<newline>70\<newline>4\<newline>''
       @ ''0\<newline>VERTEX\<newline>8\<newline>CURVES\<newline>10\<newline>8.000000\<newline>20\<newline>0.000000\<newline>30\<newline>0.0\<newline>70\<newline>8\<newline>''
       @ ''0\<newline>SEQEND\<newline>8\<newline>CURVES\<newline>''
       @ ''0\<newline>LINE\<newline>8\<newline>LINES\<newline>10\<newline>8.000000\<newline>20\<newline>0.000000\<newline>30\<newline>0.0\<newline>11\<newline>0.000000\<newline>21\<newline>144.000000\<newline>31\<newline>0.0\<newline>''
       @ ''0\<newline>LINE\<newline>8\<newline>LINES\<newline>10\<newline>0.000000\<newline>20\<newline>144.000000\<newline>30\<newline>0.0\<newline>11\<newline>0.000000\<newline>21\<newline>0.0\<newline>31\<newline>0.0\<newline>''"
proof -
  have o: "Fin (real (0::nat)) * (Fin 12 * Fin 1.2) = Fin 0" by simp
  have q: "Fin 0 + Fin 8 = Fin 8" by simp
  show ?thesis
    unfolding rib_entities_def Let_def o
    by (simp add: rib_with_def vertex_record_def toFixed_examples del: toFixed.simps)
qed

text \<open>
  Claim C9, as stated, fails: \<open>exportDXF\<close> skips nothing. A rib with an empty profile
  makes the whole export throw, also when the other ribs are sound; a rib with a
  one-point profile gets its full entity group, a \<open>POLYLINE\<close> of a single
  \<open>VERTEX\<close> between three \<open>LINE\<close>s.
\<close>

theorem exportDXF_counterexample:
  "exportDXF [rib_with []] DEFAULT_PARAMS = Inl TypeError
   \<and> exportDXF [rib_with two_points, rib_with []] DEFAULT_PARAMS = Inl TypeError
   \<and> exportDXF [rib_with [Vector2 (Fin 8) (Fin 0)]] DEFAULT_PARAMS =
       Inr (dxf_preamble
            @ ''0\<newline>LINE\<newline>8\<newline>LINES\<newline>10\<newline>0.000000\<newline>20\<newline>0.0\<newline>30\<newline>0.0\<newline>11\<newline>8.000000\<newline>21\<newline>0.000000\<newline>31\<newline>0.0\<newline>''
            @ ''0\<newline>POLYLINE\<newline>8\<newline>CURVES\<newline>66\<newline>1\<newline>70\<newline>4\<newline>''
            @ ''0\<newline>VERTEX\<newline>8\<newline>CURVES\<newline>10\<newline>8.000000\<newline>20\<newline>0.000000\<newline>30\<newline>0.0\<newline>70\<newline>8\<newline>''
            @ ''0\<newline>SEQEND\<newline>8\<newline>CURVES\<newline>''
            @ ''0\<newline>LINE\<newline>8\<newline>LINES\<newline>10\<newline>8.000000\<newline>20\<newline>0.000000\<newline>30\<newline>0.0\<newline>11\<newline>0.000000\<newline>21\<newline>144.000000\<newline>31\<newline>0.0\<newline>''
            @ ''0\<newline>LINE\<newline>8\<newline>LINES\<newline>10\<newline>0.000000\<newline>20\<newline>144.000000\<newline>30\<newline>0.0\<newline>11\<newline>0.000000\<newline>21\<newline>0.0\<newline>31\<newline>0.0\<newline>''
            @ ''0\<newline>ENDSEC\<newline>0\<newline>EOF\<newline>'')"
proof (intro conjI)
  have p: "height DEFAULT_PARAMS = Fin 144" "maxDepth DEFAULT_PARAMS = Fin 12"
    by (simp_all add: DEFAULT_PARAMS_def)
  have empty: "rp_profile (rib_with []) = []"
    by (simp add: rib_with_def)
  have two: "rp_profile (rib_with two_points) \<noteq> []"
    by (simp add: rib_with_def two_points_def)
  have one: "rp_profile (rib_with [Vector2 (Fin 8) (Fin 0)]) \<noteq> []"
    by (simp add: rib_with_def)
  show "exportDXF [rib_with []] DEFAULT_PARAMS = Inl TypeError"
    unfolding exportDXF_def Let_def forEach_rib_empty_profile [OF empty] by simp
  show "exportDXF [rib_with two_points, rib_with []] DEFAULT_PARAMS = Inl TypeError"
    unfolding exportDXF_def Let_def forEach_rib_step [OF two] forEach_rib_empty_profile [OF empty]
    by simp
  show "exportDXF [rib_with [Vector2 (Fin 8) (Fin 0)]] DEFAULT_PARAMS = Inr (dxf_preamble
            @ ''0\<newline>LINE\<newline>8\<newline>LINES\<newline>10\<newline>0.000000\<newline>20\<newline>0.0\<newline>30\<newline>0.0\<newline>11\<newline>8.000000\<newline>21\<newline>0.000000\<newline>31\<newline>0.0\<newline>''
            @ ''0\<newline>POLYLINE\<newline>8\<newline>CURVES\<newline>66\<newline>1\<newline>70\<newline>4\<newline>''
            @ ''0\<newline>VERTEX\<newline>8\<newline>CURVES\<newline>10\<newline>8.000000\<newline>20\<newline>0.000000\<newline>30\<newline>0.0\<newline>70\<newline>8\<newline>''
            @ ''0\<newline>SEQEND\<newline>8\<newline>CURVES\<newline>''
            @ ''0\<newline>LINE\<newline>8\<newline>LINES\<newline>10\<newline>8.000000\<newline>20\<newline>0.000000\<newline>30\<newline>0.0\<newline>11\<newline>0.000000\<newline>21\<newline>144.000000\<newline>31\<newline>0.0\<newline>''
            @ ''0\<newline>LINE\<newline>8\<newline>LINES\<newline>10\<newline>0.000000\<newline>20\<newline>144.000000\<newline>30\<newline>0.0\<newline>11\<newline>0.000000\<newline>21\<newline>0.0\<newline>31\<newline>0.0\<newline>''
            @ ''0\<newline>ENDSEC\<newline>0\<newline>EOF\<newline>'')"
    unfolding exportDXF_def Let_def p forEach_rib_step [OF one] forEach_rib.simps(1)
      one_point_entities
    by (simp only: sum.case append_assoc)
qed

text \<open>
  Claim C9, amended. \<open>exportDXF\<close> has no guard for degenerate profiles. It throws
  exactly when the profile of some rib is empty. Otherwise it returns the document in
  which every rib, also one with a single profile point, has its whole entity group in rib
  order: \<open>LINE\<close>, \<open>POLYLINE\<close> with one \<open>VERTEX\<close> for each profile point,
  \<open>SEQEND\<close>, \<open>LINE\<close>, \<open>LINE\<close>, shifted by \<open>ribIndex * maxDepth * 1.2\<close>.
\<close>

theorem exportDXF_has_no_guard:
  "(exportDXF ribs params = Inl TypeError \<longleftrightarrow> (\<exists>rib\<in>set ribs. rp_profile rib = []))
   \<and> ((\<forall>rib\<in>set ribs. rp_profile rib \<noteq> []) \<longrightarrow>
        exportDXF ribs params =
          Inr (dxf_preamble
               @ concat (map (\<lambda>(i, rib). rib_entities (height params) (maxDepth params * Fin 1.2) i rib)
                           (enumerate 0 ribs))
               @ ''0\<newline>ENDSEC\<newline>0\<newline>EOF\<newline>''))"
proof (cases "\<exists>rib\<in>set ribs. rp_profile rib = []")
  case True
  then show ?thesis
    by (auto simp: exportDXF_def Let_def forEach_rib_throws)
next
  case False
  then have "\<forall>rib\<in>set ribs. rp_profile rib \<noteq> []" by simp
  from forEach_rib_returns [OF this] False show ?thesis
    by (simp add: exportDXF_def Let_def)
qed

theorem exportDXF_has_no_guard_witness:
  "list_all (\<lambda>rib. rp_profile rib \<noteq> []) [rib_with two_points]
   \<and> exportDXF [rib_with two_points] DEFAULT_PARAMS =
       Inr (dxf_preamble
            @ rib_entities (Fin 144) (Fin 12 * Fin 1.2) 0 (rib_with two_points)
            @ ''0\<newline>ENDSEC\<newline>0\<newline>EOF\<newline>'')"
proof -
  have h: "\<forall>rib\<in>set [rib_with two_points]. rp_profile rib \<noteq> []"
    by (simp add: rib_with_def two_points_def)
  have p: "height DEFAULT_PARAMS = Fin 144" "maxDepth DEFAULT_PARAMS = Fin 12"
    by (simp_all add: DEFAULT_PARAMS_def)
  have e: "enumerate 0 [rib_with two_points] = [(0, rib_with two_points)]"
    by simp
  note exportDXF_has_no_guard [of "[rib_with two_points]" DEFAULT_PARAMS, THEN conjunct2,
      THEN mp, OF h, unfolded p e]
  then have "exportDXF [rib_with two_points] DEFAULT_PARAMS =
       Inr (dxf_preamble
            @ rib_entities (Fin 144) (Fin 12 * Fin 1.2) 0 (rib_with two_points)
            @ ''0\<newline>ENDSEC\<newline>0\<newline>EOF\<newline>'')"
    by (simp only: list.map prod.case concat.simps append_Nil2)
  with h show ?thesis by (simp only: list_all_iff simp_thms)
qed

end
